theory Spec2Isabelle
  imports Main "HOL-Library.Sublist"
begin

section \<open>Python strings\<close>

text \<open>
  A Python \<open>str\<close> is modelled as a \<open>string\<close>: a list of characters, each one a code point
  below 256 (ASCII and Latin-1). The functions below are the \<open>str\<close> methods the services
  call, restricted to those code points.
\<close>

definition whitespace_chars :: "char list" where
  "whitespace_chars =
     [CHR 0x09, CHR 0x0A, CHR 0x0B, CHR 0x0C, CHR 0x0D, CHR 0x1C, CHR 0x1D, CHR 0x1E,
      CHR 0x1F, CHR '' '', CHR 0x85, CHR 0xA0]"

definition is_space :: "char \<Rightarrow> bool" where
  \<comment> \<open>\<open>str.isspace\<close> on one character; also the regular expression class \<open>\s\<close>\<close>
  "is_space c = (c \<in> set whitespace_chars)"

definition strip :: "string \<Rightarrow> string" where
  \<comment> \<open>\<open>s.strip()\<close>\<close>
  "strip s = rev (dropWhile is_space (rev (dropWhile is_space s)))"

definition upper_chars :: "char list" where
  "upper_chars = ''ABCDEFGHIJKLMNOPQRSTUVWXYZ'' @
     [CHR 0xC0, CHR 0xC1, CHR 0xC2, CHR 0xC3, CHR 0xC4, CHR 0xC5, CHR 0xC6, CHR 0xC7,
      CHR 0xC8, CHR 0xC9, CHR 0xCA, CHR 0xCB, CHR 0xCC, CHR 0xCD, CHR 0xCE, CHR 0xCF,
      CHR 0xD0, CHR 0xD1, CHR 0xD2, CHR 0xD3, CHR 0xD4, CHR 0xD5, CHR 0xD6,
      CHR 0xD8, CHR 0xD9, CHR 0xDA, CHR 0xDB, CHR 0xDC, CHR 0xDD, CHR 0xDE]"

definition lower_chars :: "char list" where
  "lower_chars = ''abcdefghijklmnopqrstuvwxyz'' @
     [CHR 0xE0, CHR 0xE1, CHR 0xE2, CHR 0xE3, CHR 0xE4, CHR 0xE5, CHR 0xE6, CHR 0xE7,
      CHR 0xE8, CHR 0xE9, CHR 0xEA, CHR 0xEB, CHR 0xEC, CHR 0xED, CHR 0xEE, CHR 0xEF,
      CHR 0xF0, CHR 0xF1, CHR 0xF2, CHR 0xF3, CHR 0xF4, CHR 0xF5, CHR 0xF6,
      CHR 0xF8, CHR 0xF9, CHR 0xFA, CHR 0xFB, CHR 0xFC, CHR 0xFD, CHR 0xFE]"

definition lower_char :: "char \<Rightarrow> char" where
  "lower_char c = (case map_of (zip upper_chars lower_chars) c of Some d \<Rightarrow> d | None \<Rightarrow> c)"

definition lower :: "string \<Rightarrow> string" where
  \<comment> \<open>\<open>s.lower()\<close>\<close>
  "lower s = map lower_char s"

fun py_in :: "string \<Rightarrow> string \<Rightarrow> bool" where
  \<comment> \<open>\<open>sub in s\<close> on two strings: \<open>sub\<close> occurs somewhere in \<open>s\<close>\<close>
  "py_in sub [] = (sub = [])"
| "py_in sub (c # cs) = (prefix sub (c # cs) \<or> py_in sub cs)"

fun split_on :: "char \<Rightarrow> string \<Rightarrow> string list" where
  \<comment> \<open>\<open>s.split(d)\<close> for a one-character separator\<close>
  "split_on d [] = [[]]"
| "split_on d (c # cs) =
     (if c = d then [] # split_on d cs
      else (case split_on d cs of [] \<Rightarrow> [[c]] | l # ls \<Rightarrow> (c # l) # ls))"

definition split_first :: "char \<Rightarrow> string \<Rightarrow> string \<times> string" where
  \<comment> \<open>\<open>key, value = s.split(d, 1)\<close>, called only when \<open>d in s\<close>\<close>
  "split_first d s = (takeWhile (\<lambda>c. c \<noteq> d) s, tl (dropWhile (\<lambda>c. c \<noteq> d) s))"

definition remove_char :: "char \<Rightarrow> string \<Rightarrow> string" where
  \<comment> \<open>\<open>s.replace(d, '')\<close> for a one-character \<open>d\<close>\<close>
  "remove_char d s = filter (\<lambda>c. c \<noteq> d) s"

definition newline :: char where
  "newline = CHR 0x0A"

fun join_lines :: "string list \<Rightarrow> string" where
  \<comment> \<open>\<open>"\n".join(ls)\<close>\<close>
  "join_lines [] = []"
| "join_lines [l] = l"
| "join_lines (l # ls) = l @ newline # join_lines ls"

text \<open>
  \<open>int(s)\<close> on a string. Whitespace around the literal is dropped, where whitespace is
  tab, line feed, vertical tab, form feed, carriage return and space, and of the code
  points from 127 on those that \<open>str.isspace\<close> accepts, U+0085 and U+00A0; the
  separators U+001C to U+001F are not dropped. Then one sign is allowed, then decimal
  digits, where single underscores may stand between digits. A literal of more than
  4300 digits is refused (the default of \<open>sys.get_int_max_str_digits()\<close>). Anything
  else raises \<open>ValueError\<close>, which is \<open>None\<close> here.
\<close>

definition int_space_chars :: "char list" where
  "int_space_chars =
     [CHR 0x09, CHR 0x0A, CHR 0x0B, CHR 0x0C, CHR 0x0D, CHR '' '', CHR 0x85, CHR 0xA0]"

definition is_int_space :: "char \<Rightarrow> bool" where
  "is_int_space c = (c \<in> set int_space_chars)"

definition int_strip :: "string \<Rightarrow> string" where
  "int_strip s = rev (dropWhile is_int_space (rev (dropWhile is_int_space s)))"

definition int_max_str_digits :: nat where
  "int_max_str_digits = 4300"

definition is_digit :: "char \<Rightarrow> bool" where
  "is_digit c = (c \<in> set ''0123456789'')"

definition digit_val :: "char \<Rightarrow> nat" where
  "digit_val c = (case map_of (zip ''0123456789'' [0, 1, 2, 3, 4, 5, 6, 7, 8, 9]) c of
                    Some n \<Rightarrow> n | None \<Rightarrow> 0)"

fun digits_value :: "string \<Rightarrow> nat \<Rightarrow> nat option" where
  "digits_value [] acc = Some acc"
| "digits_value (c # cs) acc =
     (if is_digit c then digits_value cs (acc * 10 + digit_val c)
      else if c = CHR ''_'' then
        (case cs of [] \<Rightarrow> None | d # _ \<Rightarrow> if is_digit d then digits_value cs acc else None)
      else None)"

definition unsigned_value :: "string \<Rightarrow> nat option" where
  "unsigned_value ds =
     (case ds of
        [] \<Rightarrow> None
      | d # _ \<Rightarrow>
          if is_digit d \<and> length (filter is_digit ds) \<le> int_max_str_digits
          then digits_value ds 0 else None)"

definition py_int_of_str :: "string \<Rightarrow> int option" where
  "py_int_of_str s =
     (case int_strip s of
        [] \<Rightarrow> None
      | c # cs \<Rightarrow>
          if c = CHR ''-'' then map_option (\<lambda>n. - int n) (unsigned_value cs)
          else if c = CHR ''+'' then map_option int (unsigned_value cs)
          else map_option int (unsigned_value (c # cs)))"

section \<open>Model inference runner (services/transcription.py)\<close>

text \<open>
  What an ASR pipeline hands back when it is called: it raises, or it returns a value.
  The runner distinguishes four shapes of value: a dict whose \<open>"text"\<close> entry is a
  \<open>str\<close>, a plain \<open>str\<close>, \<open>None\<close>, and anything else, for which \<open>str(result)\<close> either
  gives a string or raises.
\<close>

datatype pipe_value =
    TextDict string
  | PlainStr string
  | NoneValue
  | OtherValue "string option"

datatype pipe_outcome = Returns pipe_value | Raises

record 's audio_input =
  raw :: "'s list"
  sampling_rate :: int

type_synonym 's pipeline = "'s audio_input \<Rightarrow> pipe_outcome"

text \<open>\<open>asr_models\<close>: the registry. A key bound to \<open>None\<close> in the Python dict is an
  absent key here, since \<open>asr_models.get(key)\<close> is falsy in both cases.\<close>

type_synonym 's registry = "string \<Rightarrow> 's pipeline option"

record transcription_result =
  result_text :: string

definition standardize_output :: "pipe_value \<Rightarrow> string" where
  "standardize_output result =
     (case result of
        TextDict t \<Rightarrow> strip t
      | PlainStr t \<Rightarrow> strip t
      | NoneValue \<Rightarrow> ''''
      | OtherValue None \<Rightarrow> ''''
      | OtherValue (Some t) \<Rightarrow> strip t)"

definition run_pipeline_async :: "'s registry \<Rightarrow> string \<Rightarrow> 's audio_input \<Rightarrow> transcription_result" where
  "run_pipeline_async asr_models model_key audio_in =
     (case asr_models model_key of
        None \<Rightarrow> \<lparr>result_text = ''Error: Pipeline '' @ [CHR 0x27] @ model_key @ [CHR 0x27] @ '' not available.''\<rparr>
      | Some pipeline \<Rightarrow>
          (case pipeline audio_in of
             Returns result \<Rightarrow> \<lparr>result_text = standardize_output result\<rparr>
           | Raises \<Rightarrow>
               \<lparr>result_text = ''Error during transcription processing with '' @ [CHR 0x27] @ model_key
                        @ [CHR 0x27] @ ''.''\<rparr>))"

text \<open>The outcome of \<open>langdetect.detect_langs\<close> on a text: the ranked language codes, or
  one of the two kinds of exception the caller catches.\<close>

datatype lang_outcome = Langs "string list" | LangDetectException | LangError

definition top_language :: "(string \<Rightarrow> lang_outcome) \<Rightarrow> int \<Rightarrow> string \<Rightarrow> string option" where
  \<comment> \<open>lines 163-175 and 178-189: classify one model's text if it is long enough\<close>
  "top_language detect_langs min_text_len_for_detect t =
     (if t \<noteq> [] \<and> int (length t) \<ge> min_text_len_for_detect then
        (case detect_langs t of
           Langs (l # _) \<Rightarrow> Some l
         | Langs [] \<Rightarrow> None
         | LangDetectException \<Rightarrow> None
         | LangError \<Rightarrow> None)
      else None)"

definition decide_language :: "string option \<Rightarrow> string option \<Rightarrow> string" where
  \<comment> \<open>lines 192-229: the decision table, first match wins\<close>
  "decide_language detected_lang_ml detected_lang_en =
     (if detected_lang_ml = Some ''ml'' \<and> detected_lang_en \<noteq> Some ''en'' then ''ml''
      else if detected_lang_en = Some ''en'' \<and> detected_lang_ml \<noteq> Some ''ml'' then ''en''
      else if detected_lang_ml = Some ''ml'' \<and> detected_lang_en = Some ''ml'' then ''ml''
      else if detected_lang_ml = Some ''en'' \<and> detected_lang_en = Some ''en'' then ''en''
      else if detected_lang_ml = Some ''ml'' \<and> detected_lang_en = None then ''ml''
      else if detected_lang_en = Some ''en'' \<and> detected_lang_ml = None then ''en''
      else ''en'')"

definition detection_text :: "transcription_result \<Rightarrow> string" where
  \<comment> \<open>lines 132-156: a text that reports an error counts as empty\<close>
  "detection_text r = (if py_in ''Error:'' (result_text r) then '''' else result_text r)"

section \<open>Resilient remote inference client (services/gemini_api.py)\<close>

text \<open>
  Effects are recorded as a list of events, in the order in which they happen: each HTTP
  request carries its prompt, each \<open>asyncio.sleep\<close> its argument. The route adds one
  event for each call of a Gemini-backed stage.
\<close>

type_synonym dict = "(string \<times> string) list"

datatype event =
    Post string
  | Sleep int
  | CallTranslate string
  | CallExtractEmr string
  | CallGenerateSuggestions dict

text \<open>A decoded JSON value; a \<open>JDict\<close> lists each key once.\<close>

datatype json =
    JNull
  | JBool bool
  | JNum int
  | JStr string
  | JList "json list"
  | JDict "(string \<times> json) list"

text \<open>
  What \<open>response.json()\<close> does: it returns the decoded value, or raises
  \<open>aiohttp.ContentTypeError\<close> (a \<open>ClientResponseError\<close> with the status and headers of
  the response), or raises something else (the bytes do not decode, or the text is not
  JSON), which is \<open>JsonDecodeError\<close> here.
\<close>

datatype json_outcome = JsonBody json | ContentTypeError | JsonDecodeError

text \<open>
  The body of a response: whether \<open>response.text()\<close> returns it (otherwise it raises
  \<open>UnicodeDecodeError\<close>), and what \<open>response.json()\<close> does with it.
\<close>

datatype body = Body (readable: bool) (json_of: json_outcome)

text \<open>
  What one \<open>session.post\<close> gives: a response with status, headers and body, or one of
  the exceptions the client distinguishes (\<open>asyncio.TimeoutError\<close>, an
  \<open>aiohttp.ClientError\<close> that is not a response error, any other exception).
\<close>

datatype attempt_outcome =
    Response int "(string \<times> string) list" body
  | TimeoutError
  | ClientError
  | OtherError

text \<open>
  The exceptions that leave \<open>call_gemini_api\<close>. Both are raised inside an \<open>except\<close>
  clause, where no other clause of the \<open>try\<close> catches them: \<open>ValueError\<close> by \<open>int\<close>
  on a \<open>Retry-After\<close> value that is not an integer literal, \<open>OverflowError\<close> by
  \<open>asyncio.sleep\<close> on an integer too large for a float.
\<close>

datatype exn = ValueError string | OverflowError

datatype parsed = Text string | Malformed | AttributeError

datatype step =
    Return "string option"
  | Raise exn
  | Continue "event list" int

fun truthy :: "json \<Rightarrow> bool" where
  "truthy JNull = False"
| "truthy (JBool b) = b"
| "truthy (JNum n) = (n \<noteq> 0)"
| "truthy (JStr s) = (s \<noteq> [])"
| "truthy (JList l) = (l \<noteq> [])"
| "truthy (JDict d) = (d \<noteq> [])"

definition dict_get :: "(string \<times> json) list \<Rightarrow> string \<Rightarrow> json" where
  \<comment> \<open>\<open>d.get(k)\<close>: \<open>None\<close> for a missing key\<close>
  "dict_get d k = (case map_of d k of None \<Rightarrow> JNull | Some v \<Rightarrow> v)"

fun parse_text :: "json \<Rightarrow> parsed" where
  \<comment> \<open>lines 76-85, from \<open>text = first_part.get('text')\<close> on\<close>
  "parse_text JNull = Malformed"
| "parse_text (JStr t) = Text (strip t)"
| "parse_text _ = AttributeError"

fun parse_parts :: "json \<Rightarrow> parsed" where
  \<comment> \<open>lines 69-76\<close>
  "parse_parts (JList (JDict first_part # _)) = parse_text (dict_get first_part ''text'')"
| "parse_parts (JList (_ # _)) = AttributeError"
| "parse_parts _ = Malformed"

fun parse_content :: "json \<Rightarrow> parsed" where
  \<comment> \<open>lines 63-69\<close>
  "parse_content (JDict (kv # kvs)) = parse_parts (dict_get (kv # kvs) ''parts'')"
| "parse_content _ = Malformed"

fun parse_prompt_feedback :: "json \<Rightarrow> parsed" where
  \<comment> \<open>lines 49-60: only logging, which reads the feedback with \<open>.get\<close>\<close>
  "parse_prompt_feedback (JDict d) = Malformed"
| "parse_prompt_feedback pf = (if truthy pf then AttributeError else Malformed)"

fun parse_result :: "json \<Rightarrow> parsed" where
  \<comment> \<open>lines 46-85\<close>
  "parse_result (JDict result) =
     (case dict_get result ''candidates'' of
        JList (JDict first_candidate # _) \<Rightarrow> parse_content (dict_get first_candidate ''content'')
      | JList (_ # _) \<Rightarrow> AttributeError
      | _ \<Rightarrow> parse_prompt_feedback (dict_get result ''promptFeedback''))"
| "parse_result _ = AttributeError"

definition headers_get :: "(string \<times> string) list \<Rightarrow> string \<Rightarrow> string option" where
  \<comment> \<open>\<open>e.headers.get(name)\<close>: header names compare without regard to case\<close>
  "headers_get headers name = map_of (map (\<lambda>(k, v). (lower k, v)) headers) (lower name)"

definition float_overflow :: int where
  \<comment> \<open>the least positive integer that \<open>float\<close> refuses\<close>
  "float_overflow = 2 ^ 1024 - 2 ^ 970"

definition sleep_then :: "int \<Rightarrow> int \<Rightarrow> step" where
  \<comment> \<open>\<open>await asyncio.sleep(d)\<close> in a handler, then on to the next attempt with the delay
      \<open>d'\<close>. A positive \<open>d\<close> is added to the loop's clock, a float; a \<open>d\<close> of zero or
      less returns at once.\<close>
  "sleep_then d d' = (if float_overflow \<le> d then Raise OverflowError else Continue [Sleep d] d')"

definition response_error_step :: "int \<Rightarrow> (string \<times> string) list \<Rightarrow> int \<Rightarrow> int \<Rightarrow> int \<Rightarrow> step" where
  \<comment> \<open>lines 87-104: the handler of \<open>aiohttp.ClientResponseError\<close>\<close>
  "response_error_step status headers attempt retries delay =
     (if status = 429 \<and> attempt < retries then
        (case headers_get headers ''Retry-After'' of
           None \<Rightarrow> sleep_then (delay * 2) (delay * 2)
         | Some v \<Rightarrow>
             (case py_int_of_str v of
                None \<Rightarrow> Raise (ValueError v)
              | Some retry_after \<Rightarrow> sleep_then retry_after retry_after))
      else if 500 \<le> status \<and> status < 600 \<and> attempt < retries then
        sleep_then delay (delay * 2)
      else Return None)"

definition backoff_step :: "int \<Rightarrow> int \<Rightarrow> int \<Rightarrow> step" where
  \<comment> \<open>lines 105-120: the handlers of a timeout and of a connection error\<close>
  "backoff_step attempt retries delay =
     (if attempt < retries then sleep_then delay (delay * 2) else Return None)"

definition unexpected_step :: "int \<Rightarrow> int \<Rightarrow> int \<Rightarrow> step" where
  \<comment> \<open>lines 121-126: the handler of any other exception\<close>
  "unexpected_step attempt retries delay =
     (if attempt \<ge> retries then Return None else sleep_then delay delay)"

definition malformed_step :: "int \<Rightarrow> int \<Rightarrow> int \<Rightarrow> step" where
  \<comment> \<open>\<open>if attempt < retries: await asyncio.sleep(delay)\<close> and \<open>continue\<close>. This sleep
      is inside the \<open>try\<close>: its \<open>OverflowError\<close> goes to the handler of lines 121-126,
      which sleeps again, since \<open>attempt < retries\<close>, and raises for good.\<close>
  "malformed_step attempt retries delay =
     (if attempt < retries then sleep_then delay delay else Continue [] delay)"

definition json_step :: "int \<Rightarrow> (string \<times> string) list \<Rightarrow> json_outcome \<Rightarrow> int \<Rightarrow> int \<Rightarrow> int \<Rightarrow> step" where
  \<comment> \<open>lines 42-85: \<open>response.json()\<close> and the layered parsing\<close>
  "json_step status headers j attempt retries delay =
     (case j of
        ContentTypeError \<Rightarrow> response_error_step status headers attempt retries delay
      | JsonDecodeError \<Rightarrow> unexpected_step attempt retries delay
      | JsonBody result \<Rightarrow>
          (case parse_result result of
             Text t \<Rightarrow> Return (Some t)
           | Malformed \<Rightarrow> malformed_step attempt retries delay
           | AttributeError \<Rightarrow> unexpected_step attempt retries delay))"

definition attempt_step :: "attempt_outcome \<Rightarrow> int \<Rightarrow> int \<Rightarrow> int \<Rightarrow> step" where
  \<comment> \<open>lines 31-126: one iteration of the loop. For a status other than 200 the body is
      read with \<open>response.text()\<close> first (line 38), whose exception goes to the handler
      of lines 121-126; then \<open>raise_for_status\<close> raises from 400 on.\<close>
  "attempt_step outcome attempt retries delay =
     (case outcome of
        Response status headers b \<Rightarrow>
          (if status \<noteq> 200 \<and> \<not> readable b then unexpected_step attempt retries delay
           else if status \<noteq> 200 \<and> 400 \<le> status
           then response_error_step status headers attempt retries delay
           else json_step status headers (json_of b) attempt retries delay)
      | TimeoutError \<Rightarrow> backoff_step attempt retries delay
      | ClientError \<Rightarrow> backoff_step attempt retries delay
      | OtherError \<Rightarrow> unexpected_step attempt retries delay)"

fun gemini_attempts ::
  "(nat \<Rightarrow> attempt_outcome) \<Rightarrow> string \<Rightarrow> int \<Rightarrow> nat list \<Rightarrow> int \<Rightarrow> (exn + string option) \<times> event list" where
  \<comment> \<open>\<open>for attempt in range(retries + 1)\<close>, then lines 129-130 when the range is used up\<close>
  "gemini_attempts service prompt retries [] delay = (Inr None, [])"
| "gemini_attempts service prompt retries (attempt # rest) delay =
     (case attempt_step (service attempt) (int attempt) retries delay of
        Return r \<Rightarrow> (Inr r, [Post prompt])
      | Raise e \<Rightarrow> (Inl e, [Post prompt])
      | Continue slept delay' \<Rightarrow>
          (case gemini_attempts service prompt retries rest delay' of
             (r, evs) \<Rightarrow> (r, Post prompt # slept @ evs)))"

text \<open>
  The environment of a request: the Flask configuration values the services read, the
  model registry, and the outcomes of the external calls. \<open>gemini_service prompt n\<close> is
  the outcome of attempt number \<open>n\<close> of a call with that prompt; \<open>exn_str\<close> is \<open>str(e)\<close>.
  \<open>samples_of_ms ms sr\<close> is what \<open>int(ms / 1000 * sr)\<close> gives in the floating point
  arithmetic of the platform: the integer, or \<open>None\<close> when the expression raises (an
  integer too large for a float).
\<close>

record 's env =
  asr_models :: "'s registry"
  detect_langs :: "string \<Rightarrow> lang_outcome"
  chunk_size_ms :: int
  samples_of_ms :: "int \<Rightarrow> int \<Rightarrow> int option"
  min_text_len_for_detect :: int
  gemini_api_url :: "string option"
  gemini_service :: "string \<Rightarrow> nat \<Rightarrow> attempt_outcome"
  exn_str :: "exn \<Rightarrow> string"

definition call_gemini_api :: "'s env \<Rightarrow> string \<Rightarrow> int \<Rightarrow> int \<Rightarrow> (exn + string option) \<times> event list" where
  "call_gemini_api env prompt retries delay =
     (if gemini_api_url env = None \<or> gemini_api_url env = Some [] then (Inr None, [])
      else gemini_attempts (gemini_service env prompt) prompt retries [0 ..< nat (retries + 1)] delay)"

text \<open>Reading an event log: the number of HTTP requests, and the sleeps in order.\<close>

fun attempts_made :: "event list \<Rightarrow> nat" where
  "attempts_made [] = 0"
| "attempts_made (Post p # evs) = Suc (attempts_made evs)"
| "attempts_made (_ # evs) = attempts_made evs"

fun sleeps :: "event list \<Rightarrow> int list" where
  "sleeps [] = []"
| "sleeps (Sleep d # evs) = d # sleeps evs"
| "sleeps (_ # evs) = sleeps evs"

section \<open>Language detection (services/transcription.py)\<close>

text \<open>
  The audio is the list of its samples, which the function never inspects. The steps of
  the body that can fail are the two runner calls and the classifier calls, whose
  failures are values here (\<open>Raises\<close>, \<open>LangDetectException\<close>, \<open>LangError\<close>), handled as
  lines 66-69 and 172-189 handle them, and the floating point expression of line 98,
  whose exception the handler of lines 231-233 turns into \<open>"en"\<close>.
\<close>

definition detect_language_from_audio :: "'s env \<Rightarrow> 's list \<Rightarrow> int \<Rightarrow> string" where
  "detect_language_from_audio env audio_data sr =
     (if audio_data = [] then ''en''
      else if sr \<le> 0 then ''en''
      else
        (case samples_of_ms env (chunk_size_ms env) sr of
           None \<Rightarrow> ''en''
         | Some chunk_size_samples \<Rightarrow>
             let chunk = (if chunk_size_samples \<le> 0 then audio_data
                          else if chunk_size_samples \<ge> int (length audio_data) then audio_data
                          else take (nat chunk_size_samples) audio_data)
             in if chunk = [] then ''en''
                else if asr_models env ''whisper_ml'' = None \<or> asr_models env ''whisper_en'' = None
                then ''en''
                else
                  let audio_in = \<lparr>raw = chunk, sampling_rate = sr\<rparr>;
                      ml_result = run_pipeline_async (asr_models env) ''whisper_ml'' audio_in;
                      en_result = run_pipeline_async (asr_models env) ''whisper_en'' audio_in;
                      ml_text = detection_text ml_result;
                      en_text = detection_text en_result;
                      detected_lang_ml =
                        top_language (detect_langs env) (min_text_len_for_detect env) ml_text;
                      detected_lang_en =
                        top_language (detect_langs env) (min_text_len_for_detect env) en_text
                  in decide_language detected_lang_ml detected_lang_en))"

section \<open>Structured field extraction (services/gemini_api.py)\<close>

definition dict_has :: "dict \<Rightarrow> string \<Rightarrow> bool" where
  \<comment> \<open>\<open>k in d\<close>\<close>
  "dict_has d k = (map_of d k \<noteq> None)"

definition dict_set :: "dict \<Rightarrow> string \<Rightarrow> string \<Rightarrow> dict" where
  \<comment> \<open>\<open>d[k] = v\<close>: a new key goes to the end, a bound key keeps its place\<close>
  "dict_set d k v =
     (if dict_has d k then map (\<lambda>(k', v'). if k' = k then (k', v) else (k', v')) d
      else d @ [(k, v)])"

definition dict_values :: "dict \<Rightarrow> string list" where
  "dict_values d = map snd d"

definition dict_keys :: "dict \<Rightarrow> string list" where
  "dict_keys d = map fst d"

definition indent :: string where
  "indent = ''    ''"

definition translate_prompt :: "string \<Rightarrow> string" where
  "translate_prompt t = join_lines
     ['''',
      indent @ ''Translate the following Malayalam medical text to English accurately and completely.'',
      indent @ ''Do not summarize or omit any details. Preserve medical terminology.'',
      indent @ ''Maintain the original context and meaning. If the input text is already substantially in English, return it as is with minimal changes.'',
      '''',
      indent @ ''Input Text:'',
      indent @ ''---'',
      indent @ t,
      indent @ ''---'',
      '''',
      indent @ ''English Translation:'',
      indent]"

definition match_label :: "string \<Rightarrow> string option" where
  \<comment> \<open>the alternation \<open>(english translation:|---)\<close> under \<open>re.IGNORECASE\<close>, tried at the
      head of \<open>s\<close>; the result is what follows the match\<close>
  "match_label s =
     (if lower (take 20 s) = ''english translation:'' then Some (drop 20 s)
      else if take 3 s = ''---'' then Some (drop 3 s)
      else None)"

definition ends_line :: "string \<Rightarrow> bool" where
  "ends_line ws = (ws \<noteq> [] \<and> last ws = newline)"

function strip_labels :: "bool \<Rightarrow> string \<Rightarrow> string" where
  \<comment> \<open>\<open>re.sub(r'^(english translation:|---)\s*', '', s, flags=re.IGNORECASE | re.MULTILINE)\<close>;
      the flag says whether the position is the start of the string or follows a
      newline, where \<open>^\<close> matches\<close>
  "strip_labels bol [] = []"
| "strip_labels bol (c # cs) =
     (case (if bol then match_label (c # cs) else None) of
        Some rest \<Rightarrow> strip_labels (ends_line (takeWhile is_space rest)) (dropWhile is_space rest)
      | None \<Rightarrow> c # strip_labels (c = newline) cs)"
  by pat_completeness auto
termination
  by (relation "measure (\<lambda>(bol, s). length s)")
     (auto simp add: match_label_def split: if_splits
           intro!: le_less_trans [OF length_dropWhile_le])

definition translate_with_gemini :: "'s env \<Rightarrow> string \<Rightarrow> (exn + string) \<times> event list" where
  "translate_with_gemini env t =
     (if t = [] then (Inr ''Translation unavailable: No input text'', [])
      else
        (case call_gemini_api env (translate_prompt t) 2 2 of
           (Inl e, evs) \<Rightarrow> (Inl e, evs)
         | (Inr None, evs) \<Rightarrow> (Inr ''Translation unavailable'', evs)
         | (Inr (Some translated), evs) \<Rightarrow>
             (if translated \<noteq> [] then (Inr (strip (strip_labels True translated)), evs)
              else (Inr ''Translation unavailable'', evs))))"

definition required_keys :: "string list" where
  "required_keys =
     [''Presenting Complaint'', ''History of Presenting Illness'',
      ''Past Medical History'', ''Current Medications'', ''Allergies'']"

definition emr_prompt :: "string \<Rightarrow> string" where
  "emr_prompt t = join_lines
     ['''',
      indent @ ''Analyze the following transcribed medical text. Extract the key Electronic Medical Record (EMR) data points.'',
      indent @ ''Return the extracted information strictly as KEY: VALUE pairs, one pair per line.'',
      indent @ ''Do not include any introductory sentences, explanations, or extraneous text like ''
        @ [CHR 0x22] @ ''Extracted EMR Data:'' @ [CHR 0x22] @ ''.'',
      '''',
      indent @ ''Extract these specific fields:'',
      indent @ ''- Presenting Complaint:'',
      indent @ ''- History of Presenting Illness:'',
      indent @ ''- Past Medical History:'',
      indent @ ''- Current Medications:'',
      indent @ ''- Allergies:'',
      '''',
      indent @ ''If a specific field is not mentioned in the text, return the key with the value ''
        @ [CHR 0x22] @ ''Not mentioned'' @ [CHR 0x22] @ ''.'',
      indent @ ''Do not infer or make up information. Only extract explicitly stated details.'',
      '''',
      indent @ ''Source Text:'',
      indent @ ''---'',
      indent @ t,
      indent @ ''---'',
      indent]"

definition emr_line :: "dict \<Rightarrow> string \<Rightarrow> dict" where
  \<comment> \<open>lines 201-217: the body of the loop over the lines of the answer\<close>
  "emr_line emr_data line0 =
     (let line = strip line0 in
      if CHR '':'' \<in> set line then
        (case split_first CHR '':'' line of
           (key0, value0) \<Rightarrow>
             let key = strip key0;
                 v = strip value0;
                 normalized_key = strip (remove_char CHR '':'' key);
                 matched_key = find (\<lambda>req_key. lower req_key = lower normalized_key) required_keys
             in if (case matched_key of None \<Rightarrow> False
                    | Some m \<Rightarrow> m \<noteq> [] \<and> \<not> dict_has emr_data m)
                then dict_set emr_data (the matched_key) v
                else if key \<in> set required_keys \<and> \<not> dict_has emr_data key
                then dict_set emr_data key v
                else emr_data)
      else emr_data)"

definition fill_missing :: "string \<Rightarrow> dict \<Rightarrow> string list \<Rightarrow> dict" where
  \<comment> \<open>\<open>for key in keys: if key not in d: d[key] = sentinel\<close>\<close>
  "fill_missing sentinel d keys =
     foldl (\<lambda>acc key. if \<not> dict_has acc key then dict_set acc key sentinel else acc) d keys"

definition emr_inv :: "dict \<Rightarrow> bool" where
  \<comment> \<open>the keys of a record under construction: required keys only, each one once\<close>
  "emr_inv d = (set (dict_keys d) \<subseteq> set required_keys \<and> distinct (dict_keys d))"

definition emr_lines :: "string option \<Rightarrow> dict" where
  \<comment> \<open>lines 192-219: the entries taken from the lines of the client's answer\<close>
  "emr_lines result =
     (case result of
        None \<Rightarrow> []
      | Some r \<Rightarrow> if r \<noteq> [] then foldl emr_line [] (split_on newline (strip r)) else [])"

definition parse_emr :: "string option \<Rightarrow> dict" where
  \<comment> \<open>lines 192-226: from the answer of the client to the returned dict\<close>
  "parse_emr result = fill_missing ''Not mentioned'' (emr_lines result) required_keys"

definition extract_emr :: "'s env \<Rightarrow> string \<Rightarrow> (exn + dict) \<times> event list" where
  "extract_emr env t =
     (if t = [] then (Inr [], [])
      else
        (case call_gemini_api env (emr_prompt t) 2 2 of
           (Inl e, evs) \<Rightarrow> (Inl e, evs)
         | (Inr result, evs) \<Rightarrow> (Inr (parse_emr result), evs)))"

definition required_suggestion_keys :: "string list" where
  "required_suggestion_keys =
     [''Differential Diagnosis'', ''Further Investigations'', ''Potential Treatment Options'',
      ''Specialist Referrals (if applicable)'', ''Follow-up Recommendations'']"

definition emr_string :: "dict \<Rightarrow> string" where
  \<comment> \<open>line 235\<close>
  "emr_string emr_data =
     join_lines (map (\<lambda>(k, v). ''- '' @ k @ '': '' @ v)
                     (filter (\<lambda>(k, v). lower v \<noteq> ''not mentioned'') emr_data))"

definition suggestions_prompt :: "string \<Rightarrow> string" where
  "suggestions_prompt summary = join_lines
     ['''',
      indent @ ''Based on the following summarized Electronic Medical Record (EMR) data, provide concise potential medical suggestions.'',
      indent @ ''Return the suggestions strictly as KEY: VALUE pairs, one pair per line.'',
      indent @ ''Do not include any introductory sentences, explanations, or extraneous text like ''
        @ [CHR 0x22] @ ''Medical Suggestions:'' @ [CHR 0x22] @ ''.'',
      '''',
      indent @ ''Provide suggestions for these categories if relevant based on the input:'',
      indent @ ''- Differential Diagnosis:'',
      indent @ ''- Further Investigations:'',
      indent @ ''- Potential Treatment Options:'',
      indent @ ''- Specialist Referrals (if applicable):'',
      indent @ ''- Follow-up Recommendations:'',
      '''',
      indent @ ''EMR Data Summary:'',
      indent @ ''---'',
      indent @ summary,
      indent @ ''---'',
      indent]"

definition suggestion_line :: "dict \<Rightarrow> string \<Rightarrow> dict" where
  \<comment> \<open>lines 269-283\<close>
  "suggestion_line suggestions line0 =
     (let line = strip line0 in
      if CHR '':'' \<in> set line then
        (case split_first CHR '':'' line of
           (key0, value0) \<Rightarrow>
             let key = remove_char CHR '':'' (strip key0);
                 v = strip value0;
                 matched_key = find (\<lambda>req_key. lower req_key = lower key) required_suggestion_keys
             in if (case matched_key of None \<Rightarrow> False
                    | Some m \<Rightarrow> m \<noteq> [] \<and> \<not> dict_has suggestions m)
                then dict_set suggestions (the matched_key) v
                else if key \<in> set required_suggestion_keys \<and> \<not> dict_has suggestions key
                then dict_set suggestions key v
                else suggestions)
      else suggestions)"

definition suggestion_lines :: "string option \<Rightarrow> dict" where
  \<comment> \<open>lines 260-285\<close>
  "suggestion_lines result =
     (case result of
        None \<Rightarrow> []
      | Some r \<Rightarrow> if r \<noteq> [] then foldl suggestion_line [] (split_on newline (strip r)) else [])"

definition parse_suggestions :: "string option \<Rightarrow> dict" where
  \<comment> \<open>lines 260-292\<close>
  "parse_suggestions result =
     fill_missing ''Not specified'' (suggestion_lines result) required_suggestion_keys"

definition generate_suggestions :: "'s env \<Rightarrow> dict \<Rightarrow> (exn + dict) \<times> event list" where
  "generate_suggestions env emr_data =
     (if emr_data = [] \<or> list_all (\<lambda>v. lower v = ''not mentioned'') (dict_values emr_data)
      then (Inr [], [])
      else if emr_string emr_data = [] then (Inr [], [])
      else
        (case call_gemini_api env (suggestions_prompt (emr_string emr_data)) 2 2 of
           (Inl e, evs) \<Rightarrow> (Inl e, evs)
         | (Inr result, evs) \<Rightarrow> (Inr (parse_suggestions result), evs)))"

section \<open>Pipeline orchestrator (routes/asr_routes.py)\<close>

text \<open>
  The route from the loaded audio on (steps 3 to 6, lines 113-252). Validating the form
  fields and saving, converting and loading the upload happen before and are not part
  of this model: \<open>effective\<close> is the validated language of the request, if it names one,
  and \<open>det_method\<close> the detection method set with it. A raised werkzeug exception is the
  \<open>Inl\<close> result; the events performed up to that point are kept beside it.
\<close>

datatype http_error = InternalServerError string

record response =
  status :: string
  detection_method :: string
  effective_language :: string
  raw_transcription :: string
  processed_text :: string
  emr :: dict
  suggestions :: dict

definition ALLOWED_LANGUAGES :: "string list" where
  "ALLOWED_LANGUAGES = [''en'', ''ml'']"

definition determine_language :: "'s env \<Rightarrow> string option \<Rightarrow> 's list \<Rightarrow> int \<Rightarrow> string" where
  \<comment> \<open>step 3, lines 114-124\<close>
  "determine_language env effective audio_data sr =
     (case effective of
        Some l \<Rightarrow> l
      | None \<Rightarrow>
          let detected_lang = detect_language_from_audio env audio_data sr in
          if detected_lang = [] \<or> detected_lang \<notin> set ALLOWED_LANGUAGES then ''en''
          else detected_lang)"

definition translation_stage :: "'s env \<Rightarrow> string \<Rightarrow> string \<times> event list" where
  \<comment> \<open>lines 150-160: the translation and the test of its result\<close>
  "translation_stage env raw_text =
     (case translate_with_gemini env raw_text of
        (Inl e, evs) \<Rightarrow> ('''', CallTranslate raw_text # evs)
      | (Inr final_english_text, evs) \<Rightarrow>
          (if final_english_text = [] \<or> py_in ''unavailable'' (lower final_english_text)
           then ('''', CallTranslate raw_text # evs)
           else (final_english_text, CallTranslate raw_text # evs)))"

definition transcription_stage ::
  "'s env \<Rightarrow> string \<Rightarrow> 's audio_input \<Rightarrow> (http_error + (string \<times> string \<times> string)) \<times> event list" where
  \<comment> \<open>step 4, lines 129-179; the result is the effective language, the raw transcription
      and the final English text\<close>
  "transcription_stage env language audio_in =
     (if language = ''ml'' then
        let raw_text = strip (result_text (run_pipeline_async (asr_models env) ''whisper_ml'' audio_in)) in
        if py_in ''Error:'' raw_text then (Inl (InternalServerError (''Transcription failed: '' @ raw_text)), [])
        else if raw_text = [] then (Inr (''ml'', raw_text, ''''), [])
        else (case translation_stage env raw_text of
                (final_english_text, evs) \<Rightarrow> (Inr (''ml'', raw_text, final_english_text), evs))
      else
        let raw_text = strip (result_text (run_pipeline_async (asr_models env) ''whisper_en'' audio_in)) in
        if py_in ''Error:'' raw_text then (Inl (InternalServerError (''Transcription failed: '' @ raw_text)), [])
        else (Inr (''en'', raw_text, raw_text), []))"

definition sentinel_values :: "string list" where
  "sentinel_values = [''not mentioned'', ''none'', ''n/a'', '''']"

definition is_meaningful_emr :: "dict \<Rightarrow> bool" where
  \<comment> \<open>lines 208-211\<close>
  "is_meaningful_emr emr_data =
     list_ex (\<lambda>v. v \<noteq> [] \<and> lower v \<notin> set sentinel_values) (dict_values emr_data)"

definition suggestion_stage :: "'s env \<Rightarrow> dict \<Rightarrow> (exn + dict) \<times> event list" where
  \<comment> \<open>lines 206-222, for the dict that the extraction returned\<close>
  "suggestion_stage env emr_data =
     (if emr_data \<noteq> [] then
        (if is_meaningful_emr emr_data then
           (case generate_suggestions env emr_data of
              (r, evs) \<Rightarrow> (r, CallGenerateSuggestions emr_data # evs))
         else (Inr [(''info'', ''Suggestions not generated due to non-informative EMR data.'')], []))
      else (Inr [(''info'', ''Suggestions not generated because EMR extraction was empty.'')], []))"

definition gemini_failure :: "'s env \<Rightarrow> exn \<Rightarrow> dict" where
  \<comment> \<open>line 234\<close>
  "gemini_failure env e = [(''error'', ''Failed to process text with Gemini: '' @ exn_str env e)]"

definition emr_and_suggestions :: "'s env \<Rightarrow> string \<Rightarrow> (dict \<times> dict) \<times> event list" where
  \<comment> \<open>step 5, lines 183-238\<close>
  "emr_and_suggestions env final_english_text =
     (if final_english_text \<noteq> [] \<and> \<not> py_in ''Error:'' final_english_text then
        (case extract_emr env final_english_text of
           (Inl e, evs) \<Rightarrow> (([], gemini_failure env e), CallExtractEmr final_english_text # evs)
         | (Inr emr_data, evs) \<Rightarrow>
             (case suggestion_stage env emr_data of
                (Inl e, evs') \<Rightarrow>
                  ((emr_data, gemini_failure env e), CallExtractEmr final_english_text # evs @ evs')
              | (Inr sugg, evs') \<Rightarrow>
                  ((emr_data, sugg), CallExtractEmr final_english_text # evs @ evs')))
      else
        (([(''info'', ''EMR not generated due to issues in prior steps.'')],
          [(''info'', ''Suggestions not generated due to issues in prior steps.'')]), []))"

definition process_audio ::
  "'s env \<Rightarrow> string option \<Rightarrow> string \<Rightarrow> 's list \<Rightarrow> int \<Rightarrow> (http_error + response) \<times> event list" where
  \<comment> \<open>steps 3 to 6, lines 113-252\<close>
  "process_audio env effective det_method audio_data sr =
     (let language = determine_language env effective audio_data sr;
          audio_input_for_pipeline = \<lparr>raw = audio_data, sampling_rate = sr\<rparr>
      in case transcription_stage env language audio_input_for_pipeline of
           (Inl err, evs) \<Rightarrow> (Inl err, evs)
         | (Inr (lang, raw_text, final_english_text), evs) \<Rightarrow>
             (case emr_and_suggestions env final_english_text of
                ((emr_data, sugg), evs') \<Rightarrow>
                  (Inr \<lparr>status = ''success'',
                        detection_method = det_method,
                        effective_language = lang,
                        raw_transcription = raw_text,
                        processed_text = final_english_text,
                        emr = emr_data,
                        suggestions = sugg\<rparr>,
                   evs @ evs')))"

definition transcription_model_key :: "string \<Rightarrow> string" where
  \<comment> \<open>lines 134 and 166: the model of the resolved language\<close>
  "transcription_model_key language = (if language = ''ml'' then ''whisper_ml'' else ''whisper_en'')"

definition transcription_text :: "'s env \<Rightarrow> string option \<Rightarrow> 's list \<Rightarrow> int \<Rightarrow> string" where
  \<comment> \<open>the text of the model result that the transcription step of a request obtains\<close>
  "transcription_text env effective audio_data sr =
     result_text (run_pipeline_async (asr_models env)
       (transcription_model_key (determine_language env effective audio_data sr))
       \<lparr>raw = audio_data, sampling_rate = sr\<rparr>)"

fun extraction_or_suggestion :: "event \<Rightarrow> bool" where
  \<comment> \<open>the events of record extraction and of suggestion generation\<close>
  "extraction_or_suggestion (CallExtractEmr _) = True"
| "extraction_or_suggestion (CallGenerateSuggestions _) = True"
| "extraction_or_suggestion _ = False"

section \<open>Example environments\<close>

text \<open>Concrete environments, on which the theorems below are evaluated.\<close>

definition quiet_env :: "int env" where
  \<comment> \<open>no model is loaded and every request to the remote service times out\<close>
  "quiet_env =
     \<lparr>asr_models = Map.empty,
      detect_langs = (\<lambda>_. LangDetectException),
      chunk_size_ms = 30000,
      samples_of_ms = (\<lambda>ms sr. if ms = 30000 \<and> sr = 16000 then Some 480000 else None),
      min_text_len_for_detect = 10,
      gemini_api_url = Some ''https://generativelanguage.example/generateContent'',
      gemini_service = (\<lambda>_ _. TimeoutError),
      exn_str = (\<lambda>e. case e of ValueError v \<Rightarrow> ''invalid literal for int()''
                              | OverflowError \<Rightarrow> ''int too large to convert to float'')\<rparr>"

definition answer :: "string \<Rightarrow> attempt_outcome" where
  \<comment> \<open>a well-formed answer of the remote service with the given text\<close>
  "answer t =
     Response 200 []
       (Body True (JsonBody (JDict [(''candidates'',
          JList [JDict [(''content'', JDict [(''parts'', JList [JDict [(''text'', JStr t)]])])]])])))"

definition backoff_then_limit :: "nat \<Rightarrow> attempt_outcome" where
  \<comment> \<open>a server error, then a rate limit without a \<open>Retry-After\<close> header, then an answer\<close>
  "backoff_then_limit n =
     (if n = 0 then Response 500 [] (Body True (JsonBody JNull))
      else if n = 1 then Response 429 [] (Body True (JsonBody JNull))
      else answer ''ok'')"

definition limit_at_one :: "nat \<Rightarrow> attempt_outcome" where
  \<comment> \<open>a rate limit with \<open>Retry-After: 7\<close> on attempt 1, timeouts otherwise\<close>
  "limit_at_one n =
     (if n = 1 then Response 429 [(''retry-after'', ''7'')] (Body True (JsonBody JNull))
      else TimeoutError)"

definition unconfigured_env :: "int env" where
  \<comment> \<open>no API URL is configured; the remote service would answer every request with a
      server error\<close>
  "unconfigured_env =
     quiet_env\<lparr>gemini_api_url := None,
               gemini_service := (\<lambda>_ _. Response 503 [] (Body True (JsonBody JNull)))\<rparr>"

definition failing_env :: "int env" where
  \<comment> \<open>the remote service answers every request with a server error\<close>
  "failing_env = quiet_env\<lparr>gemini_service := (\<lambda>_ _. Response 503 [] (Body True (JsonBody JNull)))\<rparr>"

definition answering_env :: "string \<Rightarrow> int env" where
  \<comment> \<open>the remote service answers every request with the given text\<close>
  "answering_env t = quiet_env\<lparr>gemini_service := (\<lambda>_ _. answer t)\<rparr>"

definition emr_answer :: string where
  "emr_answer = ''Presenting Complaint: cough'' @ [newline] @ ''no pairs on this line''
                  @ [newline] @ ''ALLERGIES: penicillin''"

definition sentinel_answer :: string where
  "sentinel_answer = ''Presenting Complaint: N/A'' @ [newline] @ ''Allergies: None''"

definition sentinel_record :: dict where
  "sentinel_record =
     [(''Presenting Complaint'', ''N/A''), (''Allergies'', ''None''),
      (''History of Presenting Illness'', ''Not mentioned''),
      (''Past Medical History'', ''Not mentioned''),
      (''Current Medications'', ''Not mentioned'')]"

definition malayalam_env :: "int env" where
  \<comment> \<open>the Malayalam model returns a transcription, and the remote service answers every
      request with a sentence that has the word \<open>unavailable\<close> in it\<close>
  "malayalam_env =
     (answering_env ''English Translation: The medicine is unavailable at the pharmacy.'')
       \<lparr>asr_models := [''whisper_ml'' \<mapsto> (\<lambda>_. Returns (TextDict ''marunnu kadayil illa''))]\<rparr>"

section \<open>Properties of the runner and of language detection\<close>

lemma decide_language_cases: "decide_language a b = ''en'' \<or> decide_language a b = ''ml''"
  unfolding decide_language_def
  by (simp only: if_split [where P = "\<lambda>x. x = ''en'' \<or> x = ''ml''"] simp_thms)

lemma if_in: "a \<in> S \<Longrightarrow> b \<in> S \<Longrightarrow> (if c then a else b) \<in> S"
  by simp

lemma case_option_in:
  "a \<in> S \<Longrightarrow> (\<And>x. f x \<in> S) \<Longrightarrow> (case opt of None \<Rightarrow> a | Some x \<Rightarrow> f x) \<in> S"
  by (cases opt) simp_all

text \<open>
  Claim C3. The decision table applied to the pair (classification of the Malayalam
  model's text, classification of the English model's text): \<open>(ml, null)\<close> gives
  Malayalam, \<open>(null, en)\<close> gives English, \<open>(null, null)\<close> gives English, and the crossed
  pair \<open>(en, ml)\<close> gives English.
\<close>

theorem decision_table_rows:
  "decide_language (Some ''ml'') None = ''ml'' \<and>
   decide_language None (Some ''en'') = ''en'' \<and>
   decide_language None None = ''en'' \<and>
   decide_language (Some ''en'') (Some ''ml'') = ''en''"
  by (simp add: decide_language_def)

text \<open>
  Claim C4. Language detection is a total function of the audio sample, the sample rate,
  the registry, the two models' outcomes (a value or an exception each) and the
  classifier's outcomes (a ranking or an exception), and its result is always \<open>"en"\<close> or
  \<open>"ml"\<close>: for every sample, in particular a non-empty one shorter than the detection
  window, and whichever inference fails.
\<close>

theorem detect_language_total:
  "detect_language_from_audio env audio_data sr \<in> {''en'', ''ml''}"
proof -
  have d: "\<And>a b. decide_language a b \<in> {''en'', ''ml''}"
    using decide_language_cases by (simp only: insert_iff empty_iff simp_thms)
  have e: "''en'' \<in> {''en'', ''ml''}"
    by (simp only: insert_iff simp_thms)
  show ?thesis
    unfolding detect_language_from_audio_def Let_def
    by (intro if_in case_option_in d e)
qed

lemma run_pipeline_absent_marked:
  "registry model_key = None \<Longrightarrow>
     prefix ''Error:'' (result_text (run_pipeline_async registry model_key audio_in))"
  by (simp add: run_pipeline_async_def)

text \<open>
  Claim C2. When the registry has no pipeline under the key, the runner's text begins with
  \<open>Error:\<close>. When the pipeline is present and raises, the text is
  \<open>Error during transcription processing with '<key>'.\<close>, which neither begins with
  \<open>Error:\<close> nor contains it: evaluated here for the key \<open>whisper_en\<close>.
\<close>

theorem run_pipeline_raise_unmarked:
  "result_text (run_pipeline_async [''whisper_en'' \<mapsto> (\<lambda>_. Raises)] ''whisper_en''
       \<lparr>raw = [0::int], sampling_rate = 16000\<rparr>)
     = ''Error during transcription processing with '' @ [CHR 0x27] @ ''whisper_en'' @ [CHR 0x27] @ ''.'' \<and>
   \<not> prefix ''Error:'' (result_text (run_pipeline_async [''whisper_en'' \<mapsto> (\<lambda>_. Raises)]
       ''whisper_en'' \<lparr>raw = [0::int], sampling_rate = 16000\<rparr>)) \<and>
   \<not> py_in ''Error:'' (result_text (run_pipeline_async [''whisper_en'' \<mapsto> (\<lambda>_. Raises)]
       ''whisper_en'' \<lparr>raw = [0::int], sampling_rate = 16000\<rparr>))"
  by (simp add: run_pipeline_async_def)

section \<open>Substring tests and stripping\<close>

lemma py_in_iff: "py_in sub s \<longleftrightarrow> (\<exists>a b. s = a @ sub @ b)"
proof (induction s)
  case Nil
  then show ?case by auto
next
  case (Cons c cs)
  show ?case
  proof
    assume "py_in sub (c # cs)"
    then consider "prefix sub (c # cs)" | "py_in sub cs" by auto
    then show "\<exists>a b. c # cs = a @ sub @ b"
    proof cases
      case 1
      then obtain b where "c # cs = sub @ b" by (auto simp: prefix_def)
      then have "c # cs = [] @ sub @ b" by simp
      then show ?thesis by blast
    next
      case 2
      with Cons.IH obtain a b where "cs = a @ sub @ b" by blast
      then have "c # cs = (c # a) @ sub @ b" by simp
      then show ?thesis by blast
    qed
  next
    assume "\<exists>a b. c # cs = a @ sub @ b"
    then obtain a b where ab: "c # cs = a @ sub @ b" by blast
    show "py_in sub (c # cs)"
    proof (cases a)
      case Nil
      with ab have "prefix sub (c # cs)" by (simp add: prefix_def)
      then show ?thesis by simp
    next
      case (Cons x a')
      with ab have "cs = a' @ sub @ b" by simp
      with Cons.IH have "py_in sub cs" by blast
      then show ?thesis by simp
    qed
  qed
qed

lemma dropWhile_keeps_infix:
  "sub \<noteq> [] \<Longrightarrow> \<not> P (hd sub) \<Longrightarrow> \<exists>a'. dropWhile P (a @ sub @ b) = a' @ sub @ b"
proof (induction a)
  case Nil
  then have "dropWhile P (sub @ b) = sub @ b" by (cases sub) auto
  then show ?case by (metis append_Nil)
next
  case (Cons x a)
  show ?case
  proof (cases "P x")
    case True
    with Cons show ?thesis by simp
  next
    case False
    then have "dropWhile P ((x # a) @ sub @ b) = (x # a) @ sub @ b" by simp
    then show ?thesis by blast
  qed
qed

lemma strip_keeps_infix:
  assumes "sub \<noteq> []" "\<not> is_space (hd sub)" "\<not> is_space (last sub)" "py_in sub s"
  shows "py_in sub (strip s)"
proof -
  from assms(4) obtain a b where "s = a @ sub @ b" by (auto simp: py_in_iff)
  then obtain a' where 1: "dropWhile is_space s = a' @ sub @ b"
    using dropWhile_keeps_infix [of sub is_space a b] assms(1,2) by blast
  have "rev sub \<noteq> []" "\<not> is_space (hd (rev sub))" using assms by (simp_all add: hd_rev)
  from dropWhile_keeps_infix [of "rev sub" is_space "rev b" "rev a'"] this
  obtain b' where "dropWhile is_space (rev b @ rev sub @ rev a') = b' @ rev sub @ rev a'" by blast
  with 1 have "strip s = a' @ sub @ rev b'" by (simp add: strip_def)
  then show ?thesis by (auto simp: py_in_iff)
qed

lemma error_marker_strip: "py_in ''Error:'' s \<Longrightarrow> py_in ''Error:'' (strip s)"
  by (rule strip_keeps_infix) (simp_all add: is_space_def whitespace_chars_def)

lemma prefix_py_in: "prefix sub s \<Longrightarrow> py_in sub s"
  by (auto simp: py_in_iff prefix_def)

lemma strip_infix: "\<exists>a b. s = a @ strip s @ b"
proof -
  have 1: "s = takeWhile is_space s @ dropWhile is_space s" by simp
  define t where "t = dropWhile is_space s"
  have "rev t = takeWhile is_space (rev t) @ dropWhile is_space (rev t)" by simp
  then have "t = rev (dropWhile is_space (rev t)) @ rev (takeWhile is_space (rev t))"
    by (metis rev_append rev_rev_ident)
  then have "t = strip s @ rev (takeWhile is_space (rev t))"
    by (simp add: strip_def t_def)
  with 1 have "s = takeWhile is_space s @ strip s @ rev (takeWhile is_space (rev t))"
    by (simp add: t_def)
  then show ?thesis by blast
qed

lemma py_in_strip_imp: "py_in sub (strip s) \<Longrightarrow> py_in sub s"
proof -
  assume "py_in sub (strip s)"
  then obtain a b where ab: "strip s = a @ sub @ b" by (auto simp: py_in_iff)
  obtain c d where "s = c @ strip s @ d" using strip_infix by blast
  with ab have "s = (c @ a) @ sub @ (b @ d)" by simp
  then show ?thesis unfolding py_in_iff by blast
qed

lemma error_marker_strip_iff: "py_in ''Error:'' (strip s) \<longleftrightarrow> py_in ''Error:'' s"
  using error_marker_strip py_in_strip_imp by blast

lemma transcription_stage_marked:
  assumes "py_in ''Error:'' (result_text (run_pipeline_async (asr_models env)
             (transcription_model_key language) audio_in))"
  shows "transcription_stage env language audio_in =
           (Inl (InternalServerError (''Transcription failed: '' @
              strip (result_text (run_pipeline_async (asr_models env)
                (transcription_model_key language) audio_in)))), [])"
proof (cases "language = ''ml''")
  case True
  with assms show ?thesis
    by (simp add: transcription_stage_def transcription_model_key_def Let_def error_marker_strip)
next
  case False
  with assms show ?thesis
    by (simp add: transcription_stage_def transcription_model_key_def Let_def error_marker_strip)
qed

lemma transcription_stage_unmarked:
  assumes "\<not> py_in ''Error:'' (result_text (run_pipeline_async (asr_models env)
             (transcription_model_key language) audio_in))"
  shows "\<exists>r evs. transcription_stage env language audio_in = (Inr r, evs)"
proof (cases "language = ''ml''")
  case True
  with assms show ?thesis
    by (simp add: transcription_stage_def transcription_model_key_def Let_def
          error_marker_strip_iff split: prod.splits)
next
  case False
  with assms show ?thesis
    by (simp add: transcription_stage_def transcription_model_key_def Let_def error_marker_strip_iff)
qed

lemma marker_fatal:
  assumes "py_in ''Error:'' (transcription_text env effective audio_data sr)"
  shows "process_audio env effective det_method audio_data sr =
           (Inl (InternalServerError (''Transcription failed: '' @
              strip (transcription_text env effective audio_data sr))), [])"
  using transcription_stage_marked [of env "determine_language env effective audio_data sr"
          "\<lparr>raw = audio_data, sampling_rate = sr\<rparr>"] assms
  by (simp add: process_audio_def transcription_text_def Let_def)

lemma unmarked_responds:
  assumes "\<not> py_in ''Error:'' (transcription_text env effective audio_data sr)"
  shows "\<exists>resp evs. process_audio env effective det_method audio_data sr = (Inr resp, evs)"
proof -
  from transcription_stage_unmarked [of env "determine_language env effective audio_data sr"
          "\<lparr>raw = audio_data, sampling_rate = sr\<rparr>"] assms
  obtain r evs where "transcription_stage env (determine_language env effective audio_data sr)
      \<lparr>raw = audio_data, sampling_rate = sr\<rparr> = (Inr r, evs)"
    by (auto simp: transcription_text_def)
  then show ?thesis
    by (simp add: process_audio_def Let_def split: prod.splits)
qed

section \<open>The fatal stage of the orchestrator\<close>

text \<open>
  Claim C5. Whenever the text of the transcription step's model result begins with
  \<open>Error:\<close>, the request ends in an \<open>InternalServerError\<close> and its event log is empty: no
  translation, no record extraction and no suggestion generation was called. Moreover,
  from the loaded audio on, a request ends in an error exactly when that text contains
  the marker: whatever language detection, translation, extraction and suggestion
  generation do (fail, raise or succeed), none of them makes the request fail.
\<close>

theorem transcription_failure_fatal:
  "(prefix ''Error:'' (transcription_text env effective audio_data sr) \<longrightarrow>
      process_audio env effective det_method audio_data sr =
        (Inl (InternalServerError (''Transcription failed: '' @
           strip (transcription_text env effective audio_data sr))), [])) \<and>
   ((\<exists>err. fst (process_audio env effective det_method audio_data sr) = Inl err) \<longleftrightarrow>
      py_in ''Error:'' (transcription_text env effective audio_data sr))"
proof (intro conjI impI)
  assume "prefix ''Error:'' (transcription_text env effective audio_data sr)"
  then have "py_in ''Error:'' (transcription_text env effective audio_data sr)"
    by (rule prefix_py_in)
  then show "process_audio env effective det_method audio_data sr =
        (Inl (InternalServerError (''Transcription failed: '' @
           strip (transcription_text env effective audio_data sr))), [])"
    by (rule marker_fatal)
next
  show "(\<exists>err. fst (process_audio env effective det_method audio_data sr) = Inl err) \<longleftrightarrow>
      py_in ''Error:'' (transcription_text env effective audio_data sr)"
  proof (cases "py_in ''Error:'' (transcription_text env effective audio_data sr)")
    case True
    then show ?thesis using marker_fatal [OF True, of det_method] by simp
  next
    case False
    then show ?thesis using unmarked_responds [OF False, of det_method] by auto
  qed
qed

theorem transcription_failure_fatal_witness:
  "prefix ''Error:'' (transcription_text quiet_env (Some ''en'') [0] 16000) \<and>
   process_audio quiet_env (Some ''en'') ''specified'' [0] 16000 =
     (Inl (InternalServerError (''Transcription failed: Error: Pipeline '' @ [CHR 0x27] @ ''whisper_en''
        @ [CHR 0x27] @ '' not available.'')), [])"
proof -
  have t: "transcription_text quiet_env (Some ''en'') [0] 16000 =
      ''Error: Pipeline '' @ [CHR 0x27] @ ''whisper_en'' @ [CHR 0x27] @ '' not available.''"
    by (simp add: transcription_text_def quiet_env_def determine_language_def
          transcription_model_key_def run_pipeline_async_def)
  have s: "strip (''Error: Pipeline '' @ [CHR 0x27] @ ''whisper_en'' @ [CHR 0x27] @ '' not available.'')
      = ''Error: Pipeline '' @ [CHR 0x27] @ ''whisper_en'' @ [CHR 0x27] @ '' not available.''"
    by (simp add: strip_def is_space_def whitespace_chars_def)
  have p: "prefix ''Error:'' (transcription_text quiet_env (Some ''en'') [0] 16000)"
    unfolding t by simp
  from transcription_failure_fatal [of quiet_env "Some ''en''" "[0]" 16000 "''specified''"] p
  have "process_audio quiet_env (Some ''en'') ''specified'' [0] 16000 =
        (Inl (InternalServerError (''Transcription failed: '' @
           strip (transcription_text quiet_env (Some ''en'') [0] 16000))), [])" by blast
  then show ?thesis using p unfolding t s by simp
qed

text \<open>
  Claim C9. The test of the transcription is containment: whenever the text of the
  transcription step's model result contains \<open>Error:\<close> anywhere, the request fails with
  the processing error that quotes the stripped text. The instance below is a
  transcription that the model returned normally, with the marker in the middle.
\<close>

theorem error_substring_fatal:
  "py_in ''Error:'' (transcription_text env effective audio_data sr) \<Longrightarrow>
     fst (process_audio env effective det_method audio_data sr) =
       Inl (InternalServerError (''Transcription failed: '' @
         strip (transcription_text env effective audio_data sr)))"
  using marker_fatal [of env effective audio_data sr det_method] by simp

theorem error_substring_fatal_witness:
  "py_in ''Error:'' (transcription_text
      (quiet_env\<lparr>asr_models := [''whisper_en'' \<mapsto> (\<lambda>_. Returns (TextDict ''The monitor showed Error: 12 during the scan''))]\<rparr>)
      (Some ''en'') [0] 16000) \<and>
   \<not> prefix ''Error:'' (transcription_text
      (quiet_env\<lparr>asr_models := [''whisper_en'' \<mapsto> (\<lambda>_. Returns (TextDict ''The monitor showed Error: 12 during the scan''))]\<rparr>)
      (Some ''en'') [0] 16000) \<and>
   fst (process_audio
      (quiet_env\<lparr>asr_models := [''whisper_en'' \<mapsto> (\<lambda>_. Returns (TextDict ''The monitor showed Error: 12 during the scan''))]\<rparr>)
      (Some ''en'') ''specified'' [0] 16000) =
     Inl (InternalServerError ''Transcription failed: The monitor showed Error: 12 during the scan'')"
proof -
  let ?env = "quiet_env\<lparr>asr_models := [''whisper_en'' \<mapsto> (\<lambda>_. Returns (TextDict ''The monitor showed Error: 12 during the scan''))]\<rparr>"
  have s: "strip ''The monitor showed Error: 12 during the scan'' = ''The monitor showed Error: 12 during the scan''"
    by (simp add: strip_def is_space_def whitespace_chars_def)
  have t: "transcription_text ?env (Some ''en'') [0] 16000 = ''The monitor showed Error: 12 during the scan''"
    by (simp add: transcription_text_def quiet_env_def determine_language_def
          transcription_model_key_def run_pipeline_async_def standardize_output_def s)
  have p: "py_in ''Error:'' (transcription_text ?env (Some ''en'') [0] 16000)"
    unfolding t by simp
  have n: "\<not> prefix ''Error:'' (transcription_text ?env (Some ''en'') [0] 16000)"
    unfolding t by simp
  from error_substring_fatal [OF p, of "''specified''"] p n show ?thesis
    unfolding t s by simp
qed

section \<open>Retries of the remote inference client\<close>

lemma server_error_step:
  assumes "500 \<le> st" "st < 600" "readable b" "d < float_overflow"
  shows "attempt_step (Response st hs b) attempt retries d =
           (if attempt < retries then Continue [Sleep d] (d * 2) else Return None)"
  using assms by (simp add: attempt_step_def response_error_step_def sleep_then_def)

lemma server_error_last_step:
  assumes "500 \<le> st" "st < 600" "readable b"
  shows "attempt_step (Response st hs b) retries retries d = Return None"
  using assms by (simp add: attempt_step_def response_error_step_def)

lemma server_error_loop:
  assumes "\<forall>n. k \<le> n \<and> n \<le> r \<longrightarrow>
             (\<exists>st hs b. svc n = Response st hs b \<and> 500 \<le> st \<and> st < 600 \<and> readable b)"
    and "\<forall>i. k \<le> i \<and> i < r \<longrightarrow> d * 2 ^ (i - k) < float_overflow"
    and "k \<le> r"
  shows "gemini_attempts svc p (int r) [k ..< Suc r] d =
           (Inr None, concat (map (\<lambda>i. [Post p, Sleep (d * 2 ^ (i - k))]) [k ..< r]) @ [Post p])"
  using assms
proof (induction "r - k" arbitrary: k d)
  case 0
  then have kr: "k = r" by simp
  from 0 obtain st hs b where s: "svc r = Response st hs b" "500 \<le> st" "st < 600" "readable b"
    using kr by blast
  have "[r ..< Suc r] = [r]" by simp
  then show ?case using s kr by (simp add: server_error_last_step del: upt_Suc)
next
  case (Suc m)
  then have lt: "k < r" by simp
  from Suc.prems obtain st hs b where s: "svc k = Response st hs b" "500 \<le> st" "st < 600" "readable b"
    by (meson le_refl)
  have small: "d < float_overflow"
    using Suc.prems(2) lt by (metis diff_self_eq_0 le_refl mult.right_neutral power_0)
  have later: "\<forall>i. Suc k \<le> i \<and> i < r \<longrightarrow> d * 2 * 2 ^ (i - Suc k) < float_overflow"
  proof (intro allI impI)
    fix i assume i: "Suc k \<le> i \<and> i < r"
    then have "i - k = Suc (i - Suc k)" by auto
    moreover have "d * 2 ^ (i - k) < float_overflow" using Suc.prems(2) i by simp
    ultimately show "d * 2 * 2 ^ (i - Suc k) < float_overflow" by simp
  qed
  have IH: "gemini_attempts svc p (int r) [Suc k ..< Suc r] (d * 2) =
           (Inr None, concat (map (\<lambda>i. [Post p, Sleep (d * 2 * 2 ^ (i - Suc k))]) [Suc k ..< r]) @ [Post p])"
    using Suc.hyps(1) [of "Suc k" "d * 2"] Suc.hyps(2) Suc.prems(1) later lt by simp
  have split: "[k ..< Suc r] = k # [Suc k ..< Suc r]" "[k ..< r] = k # [Suc k ..< r]"
    using lt by (simp_all add: upt_conv_Cons)
  have pw: "map (\<lambda>i. [Post p, Sleep (d * 2 * 2 ^ (i - Suc k))]) [Suc k ..< r] =
            map (\<lambda>i. [Post p, Sleep (d * 2 ^ (i - k))]) [Suc k ..< r]"
  proof (rule map_cong [OF refl])
    fix i assume "i \<in> set [Suc k ..< r]"
    then have "i - k = Suc (i - Suc k)" by auto
    then show "[Post p, Sleep (d * 2 * 2 ^ (i - Suc k))] = [Post p, Sleep (d * 2 ^ (i - k))]"
      by simp
  qed
  show ?case
    unfolding split using s lt small by (simp add: server_error_step IH pw del: upt_Suc)
qed

lemma attempts_made_rounds:
  "attempts_made (concat (map (\<lambda>i. [Post p, Sleep (f i)]) is) @ [Post p]) = Suc (length is)"
  by (induction "is") simp_all

lemma sleeps_rounds:
  "sleeps (concat (map (\<lambda>i. [Post p, Sleep (f i)]) is) @ [Post p]) = map f is"
  by (induction "is") simp_all

text \<open>
  Claim C6, as amended. Let an API URL be configured, the retry count be at least zero,
  and every sleep of the back-off, \<open>delay * 2 ^ i\<close> for \<open>i < retries\<close>, be a duration that
  \<open>asyncio.sleep\<close> accepts. If every attempt is answered with a status from 500 to 599
  and a body whose text can be read, the client returns \<open>None\<close> without raising, after
  exactly \<open>retries + 1\<close> requests; between consecutive requests it sleeps, first for the
  given delay and each time for twice the previous duration, and it does not sleep after
  the last request.
\<close>

theorem server_errors_exhaust_retries:
  assumes "gemini_api_url env = Some url" and "url \<noteq> []" and "0 \<le> retries"
    and "\<forall>n \<le> nat retries. \<exists>st hs b. gemini_service env prompt n = Response st hs b \<and>
            500 \<le> st \<and> st < 600 \<and> readable b"
    and "\<forall>i < nat retries. delay * 2 ^ i < float_overflow"
  shows "fst (call_gemini_api env prompt retries delay) = Inr None \<and>
         attempts_made (snd (call_gemini_api env prompt retries delay)) = nat retries + 1 \<and>
         sleeps (snd (call_gemini_api env prompt retries delay)) = map (\<lambda>i. delay * 2 ^ i) [0 ..< nat retries] \<and>
         snd (call_gemini_api env prompt retries delay) =
           concat (map (\<lambda>i. [Post prompt, Sleep (delay * 2 ^ i)]) [0 ..< nat retries]) @ [Post prompt]"
proof -
  have n: "nat (retries + 1) = Suc (nat retries)" "int (nat retries) = retries"
    using assms(3) by simp_all
  have "gemini_attempts (gemini_service env prompt) prompt (int (nat retries)) [0 ..< Suc (nat retries)] delay =
          (Inr None, concat (map (\<lambda>i. [Post prompt, Sleep (delay * 2 ^ (i - 0))]) [0 ..< nat retries]) @ [Post prompt])"
    by (rule server_error_loop) (use assms(4,5) in auto)
  then have c: "call_gemini_api env prompt retries delay =
      (Inr None, concat (map (\<lambda>i. [Post prompt, Sleep (delay * 2 ^ i)]) [0 ..< nat retries]) @ [Post prompt])"
    using assms(1,2) n by (simp add: call_gemini_api_def)
  show ?thesis
    unfolding c fst_conv snd_conv
    by (simp only: attempts_made_rounds sleeps_rounds length_upt) simp
qed

theorem server_errors_exhaust_retries_witness:
  "fst (call_gemini_api failing_env ''p'' 2 2) = Inr None \<and>
   attempts_made (snd (call_gemini_api failing_env ''p'' 2 2)) = 3 \<and>
   sleeps (snd (call_gemini_api failing_env ''p'' 2 2)) = [2, 4]"
proof -
  have a: "gemini_api_url failing_env = Some ''https://generativelanguage.example/generateContent''"
    by (simp add: failing_env_def quiet_env_def)
  have b: "''https://generativelanguage.example/generateContent'' \<noteq> []" by simp
  have c: "(0::int) \<le> 2" by simp
  have d: "\<forall>n \<le> nat 2. \<exists>st hs b. gemini_service failing_env ''p'' n = Response st hs b \<and>
             500 \<le> st \<and> st < 600 \<and> readable b"
    by (simp add: failing_env_def)
  have e: "\<forall>i < nat 2. (2::int) * 2 ^ i < float_overflow"
  proof (intro allI impI)
    fix i :: nat assume "i < nat 2"
    then have "i = 0 \<or> i = 1" by auto
    then show "(2::int) * 2 ^ i < float_overflow" by (auto simp add: float_overflow_def)
  qed
  have u: "[0 ..< nat 2] = [0, 1]" by (simp add: upt_conv_Cons)
  from server_errors_exhaust_retries [OF a b c d e] show ?thesis
    unfolding u by simp
qed

text \<open>
  The claim as first stated fails where no API URL is configured: lines 19-21 return
  \<open>None\<close> before the loop, so that with 2 retries the client sends no request, not 3,
  whatever the service would answer.
\<close>

theorem unconfigured_url_counterexample:
  "gemini_service unconfigured_env ''p'' 0 = Response 503 [] (Body True (JsonBody JNull)) \<and>
   call_gemini_api unconfigured_env ''p'' 2 2 = (Inr None, []) \<and>
   attempts_made (snd (call_gemini_api unconfigured_env ''p'' 2 2)) \<noteq> nat (2 + 1)"
  by (simp add: call_gemini_api_def unconfigured_env_def quiet_env_def)

lemma attempts_start_with_post:
  "\<exists>r evs. gemini_attempts svc p retries (x # xs) d = (r, Post p # evs)"
  by (cases "attempt_step (svc x) (int x) retries d")
     (auto split: prod.splits)

lemma rate_limit_step:
  assumes "attempt < retries" "readable b"
  shows "attempt_step (Response 429 hs b) attempt retries d =
           (case headers_get hs ''Retry-After'' of
              None \<Rightarrow> sleep_then (d * 2) (d * 2)
            | Some v \<Rightarrow> (case py_int_of_str v of
                           None \<Rightarrow> Raise (ValueError v)
                         | Some R \<Rightarrow> sleep_then R R))"
  using assms by (simp add: attempt_step_def response_error_step_def)

lemma remaining_attempts:
  assumes "int a < retries"
  shows "[a ..< nat (retries + 1)] = a # Suc a # [Suc (Suc a) ..< nat (retries + 1)]"
proof -
  have "a < nat (retries + 1)" "Suc a < nat (retries + 1)" using assms by linarith+
  then show ?thesis by (simp add: upt_conv_Cons)
qed

text \<open>
  Claim C7, as amended. Take the loop at attempt \<open>a\<close> with retry budget left
  (\<open>a < retries\<close>) and current delay \<open>d\<close>, answered with status 429 and a body whose text
  can be read. If the \<open>Retry-After\<close> header reads as an integer \<open>R\<close> that
  \<open>asyncio.sleep\<close> accepts, the client sleeps \<open>R\<close> and then makes the next request. If
  the header is absent and \<open>asyncio.sleep\<close> accepts twice the current delay, the client
  sleeps twice the current delay \<open>d\<close> and then makes the next request; \<open>d\<close> is the
  configured delay only as long as no earlier attempt has changed it.
\<close>

theorem rate_limit_delay:
  assumes "int a < retries" and "svc a = Response 429 hs b" and "readable b"
  shows "(\<forall>v R. headers_get hs ''Retry-After'' = Some v \<and> py_int_of_str v = Some R \<and>
              R < float_overflow \<longrightarrow>
            (\<exists>r evs. gemini_attempts svc p retries [a ..< nat (retries + 1)] d =
                        (r, Post p # Sleep R # Post p # evs))) \<and>
         (headers_get hs ''Retry-After'' = None \<and> d * 2 < float_overflow \<longrightarrow>
            (\<exists>r evs. gemini_attempts svc p retries [a ..< nat (retries + 1)] d =
                        (r, Post p # Sleep (d * 2) # Post p # evs)))"
proof (intro conjI allI impI)
  fix v R
  assume h: "headers_get hs ''Retry-After'' = Some v \<and> py_int_of_str v = Some R \<and> R < float_overflow"
  obtain r evs where "gemini_attempts svc p retries (Suc a # [Suc (Suc a) ..< nat (retries + 1)]) R =
      (r, Post p # evs)"
    using attempts_start_with_post by blast
  then have "gemini_attempts svc p retries [a ..< nat (retries + 1)] d =
      (r, Post p # Sleep R # Post p # evs)"
    unfolding remaining_attempts [OF assms(1)]
    using assms h by (simp add: rate_limit_step sleep_then_def)
  then show "\<exists>r evs. gemini_attempts svc p retries [a ..< nat (retries + 1)] d =
      (r, Post p # Sleep R # Post p # evs)" by blast
next
  assume h: "headers_get hs ''Retry-After'' = None \<and> d * 2 < float_overflow"
  obtain r evs where "gemini_attempts svc p retries (Suc a # [Suc (Suc a) ..< nat (retries + 1)]) (d * 2) =
      (r, Post p # evs)"
    using attempts_start_with_post by blast
  then have "gemini_attempts svc p retries [a ..< nat (retries + 1)] d =
      (r, Post p # Sleep (d * 2) # Post p # evs)"
    unfolding remaining_attempts [OF assms(1)]
    using assms h by (simp add: rate_limit_step sleep_then_def)
  then show "\<exists>r evs. gemini_attempts svc p retries [a ..< nat (retries + 1)] d =
      (r, Post p # Sleep (d * 2) # Post p # evs)" by blast
qed

theorem rate_limit_delay_witness:
  "int 1 < 2 \<and>
   limit_at_one 1 = Response 429 [(''retry-after'', ''7'')] (Body True (JsonBody JNull)) \<and>
   readable (Body True (JsonBody JNull)) \<and>
   headers_get [(''retry-after'', ''7'')] ''Retry-After'' = Some ''7'' \<and>
   py_int_of_str ''7'' = Some 7 \<and> 7 < float_overflow \<and>
   (\<exists>r evs. gemini_attempts limit_at_one ''p'' 2 [1 ..< nat (2 + 1)] 4 =
              (r, Post ''p'' # Sleep 7 # Post ''p'' # evs))"
proof -
  have a: "int 1 < 2" by simp
  have b: "limit_at_one 1 = Response 429 [(''retry-after'', ''7'')] (Body True (JsonBody JNull))"
    by (simp add: limit_at_one_def)
  have b': "readable (Body True (JsonBody JNull))" by simp
  have c: "headers_get [(''retry-after'', ''7'')] ''Retry-After'' = Some ''7''"
    by (simp add: headers_get_def lower_def lower_char_def upper_chars_def lower_chars_def)
  have d: "py_int_of_str ''7'' = Some 7"
    by (simp add: py_int_of_str_def int_strip_def is_int_space_def int_space_chars_def
         unsigned_value_def is_digit_def digit_val_def int_max_str_digits_def)
  have e: "7 < float_overflow" by (simp add: float_overflow_def)
  from rate_limit_delay [of 1 2 limit_at_one "[(''retry-after'', ''7'')]" "Body True (JsonBody JNull)" "''p''" 4]
    a b b' c d e show ?thesis by blast
qed

text \<open>
  The claim as first stated fails after a back-off: with 2 retries and a configured delay
  of 2, a server error followed by a rate limit without header makes the client sleep 2
  and then 8, not the configured delay doubled.
\<close>

theorem rate_limit_after_backoff_counterexample:
  "gemini_service (quiet_env\<lparr>gemini_service := (\<lambda>_. backoff_then_limit)\<rparr>) ''p'' 1
      = Response 429 [] (Body True (JsonBody JNull)) \<and>
   sleeps (snd (call_gemini_api (quiet_env\<lparr>gemini_service := (\<lambda>_. backoff_then_limit)\<rparr>) ''p'' 2 2))
      = [2, 8] \<and>
   sleeps (snd (call_gemini_api (quiet_env\<lparr>gemini_service := (\<lambda>_. backoff_then_limit)\<rparr>) ''p'' 2 2)) ! 1
      \<noteq> 2 * 2"
  by (simp add: call_gemini_api_def quiet_env_def backoff_then_limit_def answer_def
      attempt_step_def response_error_step_def json_step_def sleep_then_def float_overflow_def
      headers_get_def dict_get_def
      strip_def is_space_def whitespace_chars_def upt_conv_Cons)

section \<open>Evaluating the example environments\<close>

lemmas string_ops = strip_def is_space_def whitespace_chars_def lower_def lower_char_def
  upper_chars_def lower_chars_def newline_def split_first_def remove_char_def

lemma call_answer:
  "call_gemini_api (answering_env t) p 2 2 = (Inr (Some (strip t)), [Post p])"
  by (simp add: call_gemini_api_def answering_env_def quiet_env_def answer_def upt_conv_Cons
        attempt_step_def json_step_def dict_get_def)

lemma emr_answer_lines:
  "emr_lines (Some (strip emr_answer)) = [(''Presenting Complaint'', ''cough''), (''Allergies'', ''penicillin'')]"
  by (simp add: emr_answer_def emr_lines_def emr_line_def required_keys_def dict_has_def dict_set_def
        string_ops)

lemma sentinel_answer_record: "parse_emr (Some (strip sentinel_answer)) = sentinel_record"
  by (simp add: sentinel_answer_def sentinel_record_def parse_emr_def fill_missing_def emr_lines_def
        emr_line_def required_keys_def dict_has_def dict_set_def string_ops)

lemma malayalam_translation:
  "translate_with_gemini malayalam_env ''marunnu kadayil illa'' =
     (Inr ''The medicine is unavailable at the pharmacy.'', [Post (translate_prompt ''marunnu kadayil illa'')])"
  by (simp add: translate_with_gemini_def malayalam_env_def call_gemini_api_def answering_env_def
        quiet_env_def answer_def upt_conv_Cons attempt_step_def json_step_def dict_get_def
        match_label_def ends_line_def string_ops)

section \<open>The post-condition of record extraction\<close>

lemma dict_has_keys: "dict_has d k \<longleftrightarrow> k \<in> set (dict_keys d)"
  by (simp add: dict_has_def dict_keys_def map_of_eq_None_iff)

lemma dict_set_new: "\<not> dict_has d k \<Longrightarrow> dict_set d k v = d @ [(k, v)]"
  by (simp add: dict_set_def)

lemma map_of_dict_set_new:
  "\<not> dict_has d k \<Longrightarrow> map_of (dict_set d k v) k' = (if k' = k then Some v else map_of d k')"
  by (auto simp add: dict_set_new dict_has_def map_add_def split: option.splits)

lemma fill_missing_Cons:
  "fill_missing s d (k # ks) =
     fill_missing s (if \<not> dict_has d k then dict_set d k s else d) ks"
  by (simp add: fill_missing_def)

lemma fill_missing_keys:
  "set (dict_keys (fill_missing s d ks)) = set (dict_keys d) \<union> set ks"
proof (induction ks arbitrary: d)
  case Nil
  then show ?case by (simp add: fill_missing_def)
next
  case (Cons k ks)
  show ?case
    unfolding fill_missing_Cons Cons.IH
    by (auto simp add: dict_set_new dict_has_keys) (auto simp add: dict_keys_def)
qed

lemma fill_missing_distinct:
  "distinct (dict_keys d) \<Longrightarrow> distinct (dict_keys (fill_missing s d ks))"
proof (induction ks arbitrary: d)
  case Nil
  then show ?case by (simp add: fill_missing_def)
next
  case (Cons k ks)
  have "distinct (dict_keys (if \<not> dict_has d k then dict_set d k s else d))"
    using Cons.prems by (auto simp add: dict_set_new dict_has_keys) (auto simp add: dict_keys_def)
  then show ?case unfolding fill_missing_Cons by (rule Cons.IH)
qed

lemma fill_missing_lookup:
  "map_of (fill_missing s d ks) k =
     (if dict_has d k then map_of d k else if k \<in> set ks then Some s else None)"
proof (induction ks arbitrary: d)
  case Nil
  then show ?case by (simp add: fill_missing_def dict_has_def)
next
  case (Cons x ks)
  show ?case
  proof (cases "dict_has d x")
    case True
    then show ?thesis unfolding fill_missing_Cons Cons.IH by auto
  next
    case False
    have h: "dict_has (dict_set d x s) k \<longleftrightarrow> k = x \<or> dict_has d k"
      using False by (auto simp add: dict_has_keys dict_set_new) (auto simp add: dict_keys_def)
    show ?thesis
      unfolding fill_missing_Cons Cons.IH using False
      by (auto simp add: h map_of_dict_set_new)
  qed
qed

lemma emr_inv_add:
  "emr_inv d \<Longrightarrow> k \<in> set required_keys \<Longrightarrow> \<not> dict_has d k \<Longrightarrow> emr_inv (dict_set d k v)"
  by (auto simp add: emr_inv_def dict_set_new dict_has_keys) (auto simp add: dict_keys_def)

lemma find_in_set: "find P xs = Some x \<Longrightarrow> x \<in> set xs"
  by (auto simp add: find_Some_iff)

lemma emr_line_inv: "emr_inv d \<Longrightarrow> emr_inv (emr_line d l)"
  unfolding emr_line_def Let_def
  by (auto split: prod.splits option.splits intro!: emr_inv_add dest: find_in_set)

lemma foldl_emr_line_inv: "emr_inv d \<Longrightarrow> emr_inv (foldl emr_line d ls)"
  by (induction ls arbitrary: d) (simp_all add: emr_line_inv)

lemma emr_lines_inv: "emr_inv (emr_lines result)"
proof -
  have "emr_inv []" by (simp add: emr_inv_def dict_keys_def)
  then show ?thesis
    by (auto simp add: emr_lines_def foldl_emr_line_inv split: option.splits)
qed

lemma parse_emr_keys: "set (dict_keys (parse_emr result)) = set required_keys"
  using emr_lines_inv [of result]
  by (auto simp add: parse_emr_def fill_missing_keys emr_inv_def)

lemma parse_emr_distinct: "distinct (dict_keys (parse_emr result))"
  using emr_lines_inv [of result]
  by (simp add: parse_emr_def fill_missing_distinct emr_inv_def)

lemma split_on_chars: "l \<in> set (split_on c s) \<Longrightarrow> set l \<subseteq> set s"
proof (induction s arbitrary: l)
  case Nil
  then show ?case by simp
next
  case (Cons x xs)
  show ?case
  proof (cases "x = c")
    case True
    with Cons show ?thesis by auto
  next
    case False
    show ?thesis
    proof (cases "split_on c xs")
      case Nil
      with Cons.prems False show ?thesis by auto
    next
      case (Cons h t)
      then have "set h \<subseteq> set xs" "\<And>m. m \<in> set t \<Longrightarrow> set m \<subseteq> set xs"
        using Cons.IH by auto
      with Cons Cons.prems False show ?thesis by auto
    qed
  qed
qed

lemma strip_chars: "set (strip s) \<subseteq> set s"
proof -
  have "set (strip s) \<subseteq> set (rev (dropWhile is_space s))"
    unfolding strip_def set_rev by (auto dest: set_dropWhileD)
  also have "\<dots> \<subseteq> set s" by (auto dest: set_dropWhileD)
  finally show ?thesis .
qed

lemma emr_line_no_colon: "CHR '':'' \<notin> set l \<Longrightarrow> emr_line d l = d"
  using strip_chars [of l] by (auto simp add: emr_line_def Let_def)

lemma foldl_emr_line_no_colon:
  "\<forall>l \<in> set ls. CHR '':'' \<notin> set l \<Longrightarrow> foldl emr_line d ls = d"
  by (induction ls arbitrary: d) (simp_all add: emr_line_no_colon)

lemma emr_lines_no_colon: "CHR '':'' \<notin> set r \<Longrightarrow> emr_lines (Some r) = []"
proof -
  assume a: "CHR '':'' \<notin> set r"
  have "\<forall>l \<in> set (split_on newline (strip r)). CHR '':'' \<notin> set l"
    using a split_on_chars strip_chars by blast
  then show ?thesis by (simp add: emr_lines_def foldl_emr_line_no_colon)
qed

lemma all_not_mentioned:
  "fill_missing ''Not mentioned'' [] required_keys = map (\<lambda>k. (k, ''Not mentioned'')) required_keys"
  by (simp add: fill_missing_def required_keys_def dict_has_def dict_set_def)

text \<open>
  Claim C1, as amended. For every non-empty input text for which the client call returns
  (an answer, garbage or \<open>None\<close>), \<open>extract_emr\<close> returns a dict whose keys are exactly
  the five required keys, each one once. A required key that the lines of the answer
  bound keeps that value, and every other required key is bound to \<open>Not mentioned\<close>; in
  particular all five are, when the client returned \<open>None\<close> or an answer without a colon.
\<close>

theorem extract_emr_postcondition:
  assumes "t \<noteq> []" and "call_gemini_api env (emr_prompt t) 2 2 = (Inr result, evs)"
  shows "\<exists>d. extract_emr env t = (Inr d, evs) \<and>
             set (dict_keys d) = set required_keys \<and> distinct (dict_keys d) \<and>
             (\<forall>k \<in> set required_keys.
                map_of d k = (if dict_has (emr_lines result) k then map_of (emr_lines result) k
                              else Some ''Not mentioned'')) \<and>
             ((result = None \<or> (\<exists>r. result = Some r \<and> CHR '':'' \<notin> set r)) \<longrightarrow>
                d = map (\<lambda>k. (k, ''Not mentioned'')) required_keys)"
proof -
  have e: "extract_emr env t = (Inr (parse_emr result), evs)"
    using assms by (simp add: extract_emr_def)
  have l: "\<forall>k \<in> set required_keys.
             map_of (parse_emr result) k =
               (if dict_has (emr_lines result) k then map_of (emr_lines result) k
                else Some ''Not mentioned'')"
    by (simp add: parse_emr_def fill_missing_lookup)
  have n: "(result = None \<or> (\<exists>r. result = Some r \<and> CHR '':'' \<notin> set r)) \<longrightarrow>
             parse_emr result = map (\<lambda>k. (k, ''Not mentioned'')) required_keys"
  proof
    assume "result = None \<or> (\<exists>r. result = Some r \<and> CHR '':'' \<notin> set r)"
    then have "emr_lines result = []"
      by (auto simp add: emr_lines_no_colon) (simp add: emr_lines_def)
    then show "parse_emr result = map (\<lambda>k. (k, ''Not mentioned'')) required_keys"
      by (simp add: parse_emr_def all_not_mentioned)
  qed
  from e parse_emr_keys [of result] parse_emr_distinct [of result] l n show ?thesis by blast
qed

theorem extract_emr_postcondition_witness:
  "\<exists>d. extract_emr (answering_env emr_answer) ''Cough since Monday, allergic to penicillin.'' =
          (Inr d, [Post (emr_prompt ''Cough since Monday, allergic to penicillin.'')]) \<and>
        set (dict_keys d) = set required_keys \<and>
        map_of d ''Allergies'' = Some ''penicillin'' \<and>
        map_of d ''Current Medications'' = Some ''Not mentioned''"
proof -
  have a: "''Cough since Monday, allergic to penicillin.'' \<noteq> []" by simp
  have b: "call_gemini_api (answering_env emr_answer)
             (emr_prompt ''Cough since Monday, allergic to penicillin.'') 2 2 =
           (Inr (Some (strip emr_answer)), [Post (emr_prompt ''Cough since Monday, allergic to penicillin.'')])"
    by (rule call_answer)
  have k: "''Allergies'' \<in> set required_keys" "''Current Medications'' \<in> set required_keys"
    by (simp_all add: required_keys_def)
  have h: "dict_has (emr_lines (Some (strip emr_answer))) ''Allergies''"
          "\<not> dict_has (emr_lines (Some (strip emr_answer))) ''Current Medications''"
          "map_of (emr_lines (Some (strip emr_answer))) ''Allergies'' = Some ''penicillin''"
    unfolding emr_answer_lines by (simp_all add: dict_has_def)
  from extract_emr_postcondition [OF a b] k h show ?thesis by auto
qed

text \<open>
  The claim as first stated fails on the empty text: lines 165-167 return the empty dict,
  which has none of the required keys.
\<close>

theorem extract_emr_empty_text_counterexample:
  "fst (extract_emr quiet_env '''') = Inr [] \<and>
   set (dict_keys (case fst (extract_emr quiet_env '''') of Inr d \<Rightarrow> d | Inl e \<Rightarrow> []))
     \<noteq> set required_keys"
  by (simp add: extract_emr_def dict_keys_def required_keys_def)

section \<open>The meaningfulness gate\<close>

lemma all_sentinel_gate:
  assumes "\<forall>v \<in> set (dict_values emr_data). lower v \<in> set sentinel_values"
  shows "\<not> is_meaningful_emr emr_data"
  using assms unfolding is_meaningful_emr_def list_ex_iff by blast

text \<open>
  Claim C8. For every record whose values all are, after lower-casing, one of
  \<open>not mentioned\<close>, \<open>none\<close>, \<open>n/a\<close> and the empty string, the gate says "not
  meaningful"; the suggestion step returns a dict with the single key \<open>info\<close> and
  performs no event, so \<open>generate_suggestions\<close> is not called and no request is sent;
  and when such a record is what the extraction of a request returned, the suggestions
  of the response are that \<open>info\<close> dict and the log holds the extraction's events only.
\<close>

theorem all_sentinel_no_suggestions:
  assumes "\<forall>v \<in> set (dict_values emr_data). lower v \<in> set sentinel_values"
  shows "\<not> is_meaningful_emr emr_data \<and>
         (\<exists>msg. suggestion_stage env emr_data = (Inr [(''info'', msg)], [])) \<and>
         (\<forall>final evs. final \<noteq> [] \<and> \<not> py_in ''Error:'' final \<and>
              extract_emr env final = (Inr emr_data, evs) \<longrightarrow>
            (\<exists>msg. emr_and_suggestions env final =
                     ((emr_data, [(''info'', msg)]), CallExtractEmr final # evs)))"
proof -
  have g: "\<not> is_meaningful_emr emr_data" using assms by (rule all_sentinel_gate)
  then obtain msg where m: "suggestion_stage env emr_data = (Inr [(''info'', msg)], [])"
    by (cases "emr_data = []") (simp_all add: suggestion_stage_def)
  have "\<exists>msg'. emr_and_suggestions env final = ((emr_data, [(''info'', msg')]), CallExtractEmr final # evs)"
    if "final \<noteq> [] \<and> \<not> py_in ''Error:'' final \<and> extract_emr env final = (Inr emr_data, evs)"
    for final evs
    using that m by (simp add: emr_and_suggestions_def)
  with g m show ?thesis by blast
qed

theorem all_sentinel_no_suggestions_witness:
  "list_all (\<lambda>v. lower v \<in> set sentinel_values) (dict_values sentinel_record) \<and>
   \<not> is_meaningful_emr sentinel_record \<and>
   (\<exists>msg. suggestion_stage (answering_env sentinel_answer) sentinel_record = (Inr [(''info'', msg)], [])) \<and>
   (\<exists>msg. emr_and_suggestions (answering_env sentinel_answer) ''Nothing much was said today.'' =
      ((sentinel_record, [(''info'', msg)]),
       [CallExtractEmr ''Nothing much was said today.'', Post (emr_prompt ''Nothing much was said today.'')]))"
proof -
  have a: "list_all (\<lambda>v. lower v \<in> set sentinel_values) (dict_values sentinel_record)"
    by (simp add: sentinel_record_def dict_values_def sentinel_values_def string_ops)
  then have a': "\<forall>v \<in> set (dict_values sentinel_record). lower v \<in> set sentinel_values"
    by (simp add: list_all_iff)
  have e: "extract_emr (answering_env sentinel_answer) ''Nothing much was said today.'' =
      (Inr sentinel_record, [Post (emr_prompt ''Nothing much was said today.'')])"
    by (simp add: extract_emr_def call_answer sentinel_answer_record)
  have f: "''Nothing much was said today.'' \<noteq> [] \<and> \<not> py_in ''Error:'' ''Nothing much was said today.''"
    by simp
  from all_sentinel_no_suggestions [OF a', of "answering_env sentinel_answer"] a e f
  show ?thesis by blast
qed

section \<open>Translations that mention unavailability\<close>

lemma step_sleeps_only:
  "attempt_step outcome a r d = Continue slept d' \<Longrightarrow> \<forall>e \<in> set slept. \<not> extraction_or_suggestion e"
  by (auto simp add: attempt_step_def response_error_step_def backoff_step_def unexpected_step_def
        malformed_step_def json_step_def sleep_then_def
      split: attempt_outcome.splits if_splits option.splits json_outcome.splits parsed.splits)

lemma attempts_http_only:
  "\<forall>e \<in> set (snd (gemini_attempts svc p retries as d)). \<not> extraction_or_suggestion e"
proof (induction "as" arbitrary: d)
  case Nil
  then show ?case by simp
next
  case (Cons a as)
  show ?case
  proof (cases "attempt_step (svc a) (int a) retries d")
    case (Return r)
    then show ?thesis by simp
  next
    case (Raise e)
    then show ?thesis by simp
  next
    case (Continue slept d')
    with Cons [of d'] step_sleeps_only [OF Continue] show ?thesis
      by (auto split: prod.splits)
  qed
qed

lemma call_http_only:
  "\<forall>e \<in> set (snd (call_gemini_api env p retries d)). \<not> extraction_or_suggestion e"
  using attempts_http_only by (simp add: call_gemini_api_def)

lemma translate_http_only:
  "\<forall>e \<in> set (snd (translate_with_gemini env t)). \<not> extraction_or_suggestion e"
proof (cases "t = []")
  case True
  then show ?thesis by (simp add: translate_with_gemini_def)
next
  case False
  obtain r evs where c: "call_gemini_api env (translate_prompt t) 2 2 = (r, evs)"
    by (cases "call_gemini_api env (translate_prompt t) 2 2")
  have "snd (translate_with_gemini env t) = evs"
    using False c by (simp add: translate_with_gemini_def split: sum.splits option.splits)
  with call_http_only [of env "translate_prompt t" 2 2] c show ?thesis by simp
qed

text \<open>
  Claim C10. On the Malayalam path, with a non-empty transcription free of the error
  marker, if the text that \<open>translate_with_gemini\<close> returns contains \<open>unavailable\<close>
  after lower-casing, anywhere in it, then the response has the empty string as its
  processed text, both \<open>emr\<close> and \<open>suggestions\<close> are \<open>info\<close> dicts, and the event log
  is the translation call and its requests: neither record extraction nor suggestion
  generation was called.
\<close>

theorem unavailable_translation_cleared:
  assumes "determine_language env effective audio_data sr = ''ml''"
    and "raw_text = strip (transcription_text env effective audio_data sr)"
    and "\<not> py_in ''Error:'' raw_text" and "raw_text \<noteq> []"
    and "translate_with_gemini env raw_text = (Inr t, evs)"
    and "py_in ''unavailable'' (lower t)"
  shows "process_audio env effective det_method audio_data sr =
           (Inr \<lparr>status = ''success'', detection_method = det_method, effective_language = ''ml'',
                 raw_transcription = raw_text, processed_text = '''',
                 emr = [(''info'', ''EMR not generated due to issues in prior steps.'')],
                 suggestions = [(''info'', ''Suggestions not generated due to issues in prior steps.'')]\<rparr>,
            CallTranslate raw_text # evs) \<and>
         \<not> list_ex extraction_or_suggestion (CallTranslate raw_text # evs)"
proof -
  have r: "strip (result_text (run_pipeline_async (asr_models env) ''whisper_ml''
             \<lparr>raw = audio_data, sampling_rate = sr\<rparr>)) = raw_text"
    using assms(1,2) by (simp add: transcription_text_def transcription_model_key_def)
  have tr: "translation_stage env raw_text = ('''', CallTranslate raw_text # evs)"
    using assms(5,6) by (simp add: translation_stage_def)
  have ts: "transcription_stage env ''ml'' \<lparr>raw = audio_data, sampling_rate = sr\<rparr> =
              (Inr (''ml'', raw_text, ''''), CallTranslate raw_text # evs)"
    using assms(3,4) by (simp add: transcription_stage_def r tr)
  have es: "emr_and_suggestions env '''' =
      (([(''info'', ''EMR not generated due to issues in prior steps.'')],
        [(''info'', ''Suggestions not generated due to issues in prior steps.'')]), [])"
    by (simp add: emr_and_suggestions_def)
  have 1: "process_audio env effective det_method audio_data sr =
           (Inr \<lparr>status = ''success'', detection_method = det_method, effective_language = ''ml'',
                 raw_transcription = raw_text, processed_text = '''',
                 emr = [(''info'', ''EMR not generated due to issues in prior steps.'')],
                 suggestions = [(''info'', ''Suggestions not generated due to issues in prior steps.'')]\<rparr>,
            CallTranslate raw_text # evs)"
    by (simp add: process_audio_def assms(1) ts es)
  have "\<forall>e \<in> set evs. \<not> extraction_or_suggestion e"
    using translate_http_only [of env raw_text] assms(5) by simp
  then have 2: "\<not> list_ex extraction_or_suggestion (CallTranslate raw_text # evs)"
    by (simp add: list_ex_iff)
  from 1 2 show ?thesis by blast
qed

theorem unavailable_translation_cleared_witness:
  "translate_with_gemini malayalam_env ''marunnu kadayil illa'' =
     (Inr ''The medicine is unavailable at the pharmacy.'', [Post (translate_prompt ''marunnu kadayil illa'')]) \<and>
   py_in ''unavailable'' (lower ''The medicine is unavailable at the pharmacy.'') \<and>
   process_audio malayalam_env (Some ''ml'') ''specified'' [0] 16000 =
     (Inr \<lparr>status = ''success'', detection_method = ''specified'', effective_language = ''ml'',
           raw_transcription = ''marunnu kadayil illa'', processed_text = '''',
           emr = [(''info'', ''EMR not generated due to issues in prior steps.'')],
           suggestions = [(''info'', ''Suggestions not generated due to issues in prior steps.'')]\<rparr>,
      [CallTranslate ''marunnu kadayil illa'', Post (translate_prompt ''marunnu kadayil illa'')])"
proof -
  have a: "determine_language malayalam_env (Some ''ml'') [0] 16000 = ''ml''"
    by (simp add: determine_language_def)
  have b: "''marunnu kadayil illa'' = strip (transcription_text malayalam_env (Some ''ml'') [0] 16000)"
    unfolding transcription_text_def a
    by (simp add: transcription_model_key_def malayalam_env_def answering_env_def quiet_env_def
          run_pipeline_async_def standardize_output_def string_ops)
  have c: "\<not> py_in ''Error:'' ''marunnu kadayil illa''" by simp
  have d: "''marunnu kadayil illa'' \<noteq> []" by simp
  have f: "py_in ''unavailable'' (lower ''The medicine is unavailable at the pharmacy.'')"
    by (simp add: string_ops)
  from unavailable_translation_cleared [OF a b c d malayalam_translation f, of "''specified''"]
    malayalam_translation f
  show ?thesis by blast
qed

end
